theory Spec2Isabelle
  imports Main "HOL-Library.Sublist" "HOL-Library.AList"
begin

section \<open>Python values, exceptions and effects\<close>

text \<open>
  The values that travel through the add/search queue are parsed JSON bodies: \<open>None\<close>,
  booleans, integers, strings, lists and dictionaries (in key order).
\<close>

datatype json =
    JNull
  | JBool bool
  | JInt int
  | JStr string
  | JList "json list"
  | JObj "(string \<times> json) list"

text \<open>Python truthiness, as used by \<open>if x:\<close>, \<open>not x\<close> and \<open>x or y\<close>.\<close>

fun truthy :: "json \<Rightarrow> bool" where
  "truthy JNull = False"
| "truthy (JBool b) = b"
| "truthy (JInt n) = (n \<noteq> 0)"
| "truthy (JStr s) = (s \<noteq> [])"
| "truthy (JList xs) = (xs \<noteq> [])"
| "truthy (JObj kvs) = (kvs \<noteq> [])"

text \<open>\<open>d.get(k)\<close> and \<open>d.get(k, default)\<close> on a dictionary.\<close>

definition dict_get :: "(string \<times> json) list \<Rightarrow> string \<Rightarrow> json" where
  "dict_get d k = (case map_of d k of None \<Rightarrow> JNull | Some v \<Rightarrow> v)"

definition dict_get_default :: "(string \<times> json) list \<Rightarrow> string \<Rightarrow> json \<Rightarrow> json" where
  "dict_get_default d k dflt = (case map_of d k of None \<Rightarrow> dflt | Some v \<Rightarrow> v)"

text \<open>
  Exceptions are the instances of Python's \<open>Exception\<close>, which is what every handler
  of the modelled code names (\<open>except Exception\<close>); each carries its class and the
  text \<open>str(e)\<close>.
\<close>

datatype exc_class =
    ValueError
  | KeyError
  | TypeError
  | AttributeError
  | NotImplementedError
  | HTTPError
  | RequestException

datatype py_exception = PyExc (exc_cls: exc_class) (exc_str: string)

datatype level = LvInfo | LvWarning | LvError

section \<open>core/api\_client.py: ApiWorker\<close>

text \<open>
  The worker holds the flag \<open>is_running\<close>; the task callable with its arguments is
  represented by what calling it does: it returns a value or raises.
\<close>

record api_worker =
  is_running :: bool

definition ApiWorker_init :: api_worker where
  "ApiWorker_init = \<lparr>is_running = True\<rparr>"

definition stop :: "api_worker \<Rightarrow> api_worker" where
  "stop w = w\<lparr>is_running := False\<rparr>"

datatype task_outcome = Returns json | Raises py_exception

datatype signal =
    Progress string
  | Finished json string
  | LoggerError string

text \<open>
  \<open>run\<close> yields the signals emitted and log records written, in order, and the
  exception that leaves \<open>run\<close>, if any. The worker argument is the worker as it is
  when the task callable comes back, which is when \<open>is_running\<close> is read.
\<close>

definition run :: "api_worker \<Rightarrow> task_outcome \<Rightarrow> signal list \<times> py_exception option" where
  "run w outcome =
     (case outcome of
        Returns result \<Rightarrow>
          ([Progress ''Starting task'']
           @ (if is_running w then [Finished result []] else [])
           @ [Progress ''Task finished''], None)
      | Raises e \<Rightarrow>
          ([Progress ''Starting task'', LoggerError (exc_str e)]
           @ (if is_running w then [Finished JNull (exc_str e)] else [])
           @ [Progress ''Task finished''], None))"

fun finished_signals :: "signal list \<Rightarrow> (json \<times> string) list" where
  "finished_signals [] = []"
| "finished_signals (Finished r e # ss) = (r, e) # finished_signals ss"
| "finished_signals (_ # ss) = finished_signals ss"

section \<open>plugins/plugin\_arr\_base.py: the state of a tab\<close>

type_synonym dict = "(string \<times> json) list"

text \<open>
  A \<open>QComboBox\<close> as the tab uses it: the user data of its entries and the current
  index. An empty box has no current data.
\<close>

record combo_box =
  combo_items :: "dict list"
  combo_index :: nat

definition count :: "combo_box \<Rightarrow> nat" where
  "count c = length (combo_items c)"

definition currentData :: "combo_box \<Rightarrow> dict option" where
  "currentData c =
     (if combo_index c < length (combo_items c) then Some (combo_items c ! combo_index c)
      else None)"

definition clear :: "combo_box \<Rightarrow> combo_box" where
  "clear c = \<lparr>combo_items = [], combo_index = 0\<rparr>"

definition addItem :: "combo_box \<Rightarrow> dict \<Rightarrow> combo_box" where
  "addItem c d = c\<lparr>combo_items := combo_items c @ [d]\<rparr>"

text \<open>The dictionary \<open>item_data\<close> that \<open>on_item_selected\<close> builds: a PendingAddItem.\<close>

record pending_add_item =
  item_json :: dict
  root_folder_id :: json
  root_folder_path :: json
  quality_profile_id :: json
  search_type :: string

text \<open>
  The four attribute pairs \<open>(thread_attr, worker_attr)\<close> that \<open>_start_worker\<close> is called
  with, the task functions it is given, and the completion slots it connects.
\<close>

datatype thread_attr = Status_thread | Folders_thread | Profiles_thread | Search_thread

datatype task =
    Task_get_status
  | Task_get_root_folders
  | Task_get_quality_profiles
  | Task_search_item string string
  | Task_add_item pending_add_item

datatype slot =
    On_status_finished
  | On_root_folders_finished
  | On_quality_profiles_finished
  | On_search_finished
  | On_add_finished

record qthread =
  th_id :: nat
  th_attr :: thread_attr
  th_task :: task
  th_slot :: slot

datatype box = BoxInformation | BoxWarning | BoxCritical

text \<open>
  What a handler does besides changing the tab: log records (format and arguments),
  message boxes (title and arguments), the chooser dialog, event-bus publications,
  threads started, and an exception that leaves the handler (its class).
\<close>

datatype effect =
    Log level string "json list"
  | MessageBox box string "json list"
  | SelectionDialogShown "dict list"
  | Publish string "json list"
  | ThreadStarted nat thread_attr task
  | Unhandled exc_class

text \<open>
  The tab. A thread attribute holds the identifier of the thread stored in it
  (\<open>None\<close> as in the source); the matching worker attribute is set and cleared
  together with it and is never read. \<open>threads\<close> lists the threads that were started
  and have not finished, \<open>workers\<close> the workers whose \<open>finished\<close> signal has not yet
  reached its slot, \<open>next_thread\<close> numbers them, and \<open>effects\<close> records what the
  handlers did, oldest first. Button enabling and label texts are not part of the
  model.
\<close>

record tab =
  service_name :: string
  status_thread :: "nat option"
  folders_thread :: "nat option"
  profiles_thread :: "nat option"
  search_thread :: "nat option"
  terms_to_add_queue :: "string list"
  items_to_add_queue :: "pending_add_item list"
  terms_to_add_total_count :: nat
  current_search_term :: "string option"
  current_search_type :: string
  combo_root_folder :: combo_box
  combo_quality_profile :: combo_box
  search_input :: string
  threads :: "qthread list"
  workers :: "qthread list"
  next_thread :: nat
  effects :: "effect list"

definition ArrTab_init :: "string \<Rightarrow> tab" where
  "ArrTab_init name =
     \<lparr>service_name = name,
      status_thread = None, folders_thread = None, profiles_thread = None,
      search_thread = None,
      terms_to_add_queue = [], items_to_add_queue = [],
      terms_to_add_total_count = 0,
      current_search_term = None, current_search_type = ''item'',
      combo_root_folder = \<lparr>combo_items = [], combo_index = 0\<rparr>,
      combo_quality_profile = \<lparr>combo_items = [], combo_index = 0\<rparr>,
      search_input = [],
      threads = [], workers = [], next_thread = 0, effects = []\<rparr>"

definition LidarrTab_init :: tab where
  "LidarrTab_init = (ArrTab_init ''lidarr'')\<lparr>current_search_type := ''artist''\<rparr>"

fun getattr :: "tab \<Rightarrow> thread_attr \<Rightarrow> nat option" where
  "getattr s Status_thread = status_thread s"
| "getattr s Folders_thread = folders_thread s"
| "getattr s Profiles_thread = profiles_thread s"
| "getattr s Search_thread = search_thread s"

fun setattr :: "tab \<Rightarrow> thread_attr \<Rightarrow> nat option \<Rightarrow> tab" where
  "setattr s Status_thread v = s\<lparr>status_thread := v\<rparr>"
| "setattr s Folders_thread v = s\<lparr>folders_thread := v\<rparr>"
| "setattr s Profiles_thread v = s\<lparr>profiles_thread := v\<rparr>"
| "setattr s Search_thread v = s\<lparr>search_thread := v\<rparr>"

definition emit :: "effect list \<Rightarrow> tab \<Rightarrow> tab" where
  "emit es s = s\<lparr>effects := effects s @ es\<rparr>"

fun attr_name :: "thread_attr \<Rightarrow> string" where
  "attr_name Status_thread = ''status_thread''"
| "attr_name Folders_thread = ''folders_thread''"
| "attr_name Profiles_thread = ''profiles_thread''"
| "attr_name Search_thread = ''search_thread''"

section \<open>Strings\<close>

text \<open>
  A character is a code point below 256. \<open>str.lower()\<close> maps the capital letters of
  that range (\<open>A\<close> to \<open>Z\<close>, and \<open>0xC0\<close> to \<open>0xDE\<close> but for \<open>0xD7\<close>) to their small
  ones; \<open>str.strip()\<close> removes the white space of that range (\<open>0x09\<close> to \<open>0x0D\<close>,
  \<open>0x1C\<close> to \<open>0x20\<close>, \<open>0x85\<close> and \<open>0xA0\<close>) at both ends; \<open>a in b\<close> is
  \<open>sublist a b\<close>.
\<close>

definition lower_char :: "char \<Rightarrow> char" where
  "lower_char c =
     (let n = (of_char c :: nat)
      in if (65 \<le> n \<and> n \<le> 90) \<or> (192 \<le> n \<and> n \<le> 222 \<and> n \<noteq> 215)
         then char_of (n + 32) else c)"

definition lower :: "string \<Rightarrow> string" where
  "lower s = map lower_char s"

definition is_space :: "char \<Rightarrow> bool" where
  "is_space c =
     (let n = (of_char c :: nat)
      in (9 \<le> n \<and> n \<le> 13) \<or> (28 \<le> n \<and> n \<le> 32) \<or> n = 133 \<or> n = 160)"

definition strip :: "string \<Rightarrow> string" where
  "strip s = rev (dropWhile is_space (rev (dropWhile is_space s)))"

text \<open>A name between single quotes, and the name Python gives the type of a value.\<close>

definition squote :: "string \<Rightarrow> string" where
  "squote s = CHR 0x27 # s @ [CHR 0x27]"

fun type_name :: "json \<Rightarrow> string" where
  "type_name JNull = ''NoneType''"
| "type_name (JBool _) = ''bool''"
| "type_name (JInt _) = ''int''"
| "type_name (JStr _) = ''str''"
| "type_name (JList _) = ''list''"
| "type_name (JObj _) = ''dict''"

definition is_str :: "json \<Rightarrow> bool" where
  "is_str v = (case v of JStr _ \<Rightarrow> True | _ \<Rightarrow> False)"

definition opt_str :: "string option \<Rightarrow> json" where
  "opt_str t = (case t of None \<Rightarrow> JNull | Some x \<Rightarrow> JStr x)"

section \<open>plugins/plugin\_arr\_base.py: workers and the queue engine\<close>

text \<open>
  \<open>_start_worker\<close>: refuses when the thread attribute is occupied; otherwise creates
  the thread and the worker, stores them and starts the thread.
\<close>

definition start_worker :: "thread_attr \<Rightarrow> task \<Rightarrow> slot \<Rightarrow> tab \<Rightarrow> tab" where
  "start_worker a t sl s =
     (if getattr s a \<noteq> None then
        emit [Log LvWarning ''Task for {thread_attr} is already running.'' [JStr (attr_name a)]] s
      else
        (setattr s a (Some (next_thread s)))
          \<lparr>threads := threads s @ [\<lparr>th_id = next_thread s, th_attr = a, th_task = t, th_slot = sl\<rparr>],
           workers := workers s @ [\<lparr>th_id = next_thread s, th_attr = a, th_task = t, th_slot = sl\<rparr>],
           next_thread := Suc (next_thread s),
           effects := effects s @ [ThreadStarted (next_thread s) a t]\<rparr>)"

text \<open>
  The three handlers connected to \<open>thread.finished\<close>: the attribute the thread was
  started under is set back to \<open>None\<close>, and the thread is gone.
\<close>

definition thread_finished :: "nat \<Rightarrow> tab \<Rightarrow> tab" where
  "thread_finished i s =
     (case find (\<lambda>t. th_id t = i) (threads s) of
        None \<Rightarrow> s
      | Some t \<Rightarrow> (setattr s (th_attr t) None)\<lparr>threads := filter (\<lambda>u. th_id u \<noteq> i) (threads s)\<rparr>)"

definition run_search_worker :: "string \<Rightarrow> tab \<Rightarrow> tab" where
  "run_search_worker term_text s =
     start_worker Search_thread (Task_search_item term_text (current_search_type s))
       On_search_finished s"

definition run_add_worker :: "pending_add_item \<Rightarrow> tab \<Rightarrow> tab" where
  "run_add_worker item_data s =
     start_worker Search_thread (Task_add_item item_data) On_add_finished s"

definition title_of :: "dict \<Rightarrow> json \<Rightarrow> json" where
  "title_of d dflt = dict_get_default d ''title'' (dict_get_default d ''artistName'' dflt)"

definition process_next_item_in_queue :: "tab \<Rightarrow> tab" where
  "process_next_item_in_queue s =
     (if search_thread s \<noteq> None then
        emit [Log LvWarning ''Search/add queue is already processing.'' []] s
      else
        (case items_to_add_queue s of
           item_data # rest \<Rightarrow>
             run_add_worker item_data
               (emit [Log LvInfo ''Processing ADD for: {title}''
                        [title_of (item_json item_data) (JStr ''Unknown'')]]
                  (s\<lparr>items_to_add_queue := rest\<rparr>))
         | [] \<Rightarrow>
             (case terms_to_add_queue s of
                term_text # rest \<Rightarrow>
                  run_search_worker term_text
                    (emit [Log LvInfo ''Processing SEARCH {done}/{total}: {term}''
                             [JInt (int (terms_to_add_total_count s) - int (length rest)),
                              JInt (int (terms_to_add_total_count s)), JStr term_text]]
                       (s\<lparr>current_search_term := Some term_text, terms_to_add_queue := rest\<rparr>))
              | [] \<Rightarrow>
                  (if terms_to_add_total_count s > 0 then
                     (emit [Log LvInfo ''Batch add complete.'' [],
                            MessageBox BoxInformation ''Complete'' []] s)
                       \<lparr>terms_to_add_total_count := 0\<rparr>
                   else emit [Log LvInfo ''Batch add complete.'' []] s))))"

text \<open>
  \<open>_validate_inputs\<close>: the term \<open>N/A\<close> is the default argument, used by the CSV import.
  On success both queues are emptied.
\<close>

definition validate_inputs :: "string \<Rightarrow> tab \<Rightarrow> bool \<times> tab" where
  "validate_inputs search_term s =
     (if search_term \<noteq> ''N/A'' \<and> search_term = [] then
        (False, emit [MessageBox BoxWarning ''No Input'' []] s)
      else if count (combo_root_folder s) = 0 then
        (False, emit [MessageBox BoxWarning ''No Root Folder'' []] s)
      else if count (combo_quality_profile s) = 0 then
        (False, emit [MessageBox BoxWarning ''No Quality Profile'' []] s)
      else (True, s\<lparr>terms_to_add_queue := [], items_to_add_queue := []\<rparr>))"

definition add_from_text :: "tab \<Rightarrow> tab" where
  "add_from_text s =
     (let search_term = strip (search_input s) in
      case validate_inputs search_term s of
        (False, s1) \<Rightarrow> s1
      | (True, s1) \<Rightarrow>
          process_next_item_in_queue
            (s1\<lparr>terms_to_add_queue := [search_term],
                terms_to_add_total_count := 1,
                search_input := []\<rparr>))"

text \<open>
  \<open>import_from_csv\<close>: the file dialog answers with a path (empty on cancel), and
  reading the file gives its rows or raises. The first row is the header.
\<close>

definition csv_terms :: "string list list \<Rightarrow> string list" where
  "csv_terms rows =
     map (\<lambda>row. strip (hd row))
       (filter (\<lambda>row. row \<noteq> [] \<and> strip (hd row) \<noteq> []) (tl rows))"

definition import_from_csv :: "string \<Rightarrow> (py_exception + string list list) \<Rightarrow> tab \<Rightarrow> tab" where
  "import_from_csv file_path contents s =
     (if file_path = [] then s
      else
        (case validate_inputs ''N/A'' s of
           (False, s1) \<Rightarrow> s1
         | (True, s1) \<Rightarrow>
             (case contents of
                Inl e \<Rightarrow>
                  emit [Log LvError ''Failed to read CSV: {e}'' [JStr (exc_str e)],
                        MessageBox BoxCritical ''CSV Error'' [JStr (exc_str e)]] s1
              | Inr rows \<Rightarrow>
                  (if csv_terms rows = [] then emit [MessageBox BoxWarning ''Empty CSV'' []] s1
                   else
                     process_next_item_in_queue
                       (emit [Log LvInfo ''Loaded {n} terms from CSV. Starting batch add...''
                                [JInt (int (length (csv_terms rows)))]]
                          (s1\<lparr>terms_to_add_queue := csv_terms rows,
                              terms_to_add_total_count := length (csv_terms rows)\<rparr>))))))"

definition start_search_and_add :: "string \<Rightarrow> string option \<Rightarrow> tab \<Rightarrow> tab" where
  "start_search_and_add search_term stype s =
     (if search_term = [] then s
      else
        (case validate_inputs search_term s of
           (False, s1) \<Rightarrow> s1
         | (True, s1) \<Rightarrow>
             process_next_item_in_queue
               ((case stype of
                   None \<Rightarrow> s1
                 | Some ty \<Rightarrow> if ty = [] then s1 else s1\<lparr>current_search_type := ty\<rparr>)
                  \<lparr>terms_to_add_queue := [search_term], terms_to_add_total_count := 1\<rparr>)))"

definition on_add_request :: "string \<Rightarrow> string \<Rightarrow> string \<Rightarrow> tab \<Rightarrow> tab" where
  "on_add_request name search_term stype s =
     (if lower name = lower (service_name s) then
        start_search_and_add search_term (Some stype)
          (emit [Log LvInfo ''{service} tab handling event bus request for {term}''
                   [JStr (service_name s), JStr search_term]] s)
      else s)"

text \<open>\<open>on_item_selected\<close>: reads the two combo boxes when the candidate is selected.\<close>

definition on_item_selected :: "dict \<Rightarrow> tab \<Rightarrow> tab" where
  "on_item_selected candidate s =
     (case (currentData (combo_root_folder s), currentData (combo_quality_profile s)) of
        (Some root_data, Some profile_data) \<Rightarrow>
          (if root_data = [] \<or> profile_data = [] then
             emit [Log LvError ''Root folder or quality profile not selected properly.'' []] s
           else
             emit [Log LvInfo ''Queued item for adding: {title}''
                     [title_of candidate (JStr ''Unknown'')]]
               (s\<lparr>items_to_add_queue := items_to_add_queue s @
                    [\<lparr>item_json = candidate,
                      root_folder_id = dict_get root_data ''id'',
                      root_folder_path = dict_get root_data ''path'',
                      quality_profile_id = dict_get profile_data ''id'',
                      search_type = current_search_type s\<rparr>]\<rparr>))
      | _ \<Rightarrow> emit [Log LvError ''Root folder or quality profile not selected properly.'' []] s)"

text \<open>
  The chooser: \<open>dialog.exec()\<close> is false on Skip, and true with the items of
  \<open>get_selected_items()\<close> otherwise.
\<close>

datatype dialog_answer = Rejected | Accepted "dict list"

text \<open>
  ui/dialogs.py: the constructor of \<open>SelectionDialog\<close> fills one table row per candidate.
  Slicing the \<open>overview\<close> raises unless it is a string (absent, it is the empty string);
  for an album of Lidarr the \<open>artist\<close> must be a dictionary (absent, it is the empty one).
  The texts handed to \<open>QTableWidgetItem\<close> are taken to be strings as its signature says:
  where the binding is handed another value the model has it raise \<open>TypeError\<close>. The
  result is the exception that leaves the constructor, if any. (Slicing a dictionary
  raises \<open>KeyError\<close> from Python 3.12 on; the model takes the \<open>TypeError\<close> of the earlier
  versions.)
\<close>

definition row_exception :: "string \<Rightarrow> string \<Rightarrow> dict \<Rightarrow> exc_class option" where
  "row_exception service stype item =
     (if service = ''lidarr'' then
        (if stype = ''album'' then
           (case dict_get_default item ''artist'' (JObj []) of
              JObj artist \<Rightarrow>
                (if is_str (dict_get_default item ''title'' (JStr ''Unknown''))
                    \<and> is_str (dict_get_default artist ''artistName'' (JStr ''Unknown''))
                 then None else Some TypeError)
            | _ \<Rightarrow> Some AttributeError)
         else
           (if is_str (dict_get_default item ''overview'' (JStr []))
               \<and> is_str (dict_get_default item ''artistName'' (JStr ''Unknown''))
               \<and> is_str (dict_get_default item ''disambiguation'' (JStr []))
            then None else Some TypeError))
      else
        (if is_str (dict_get_default item ''overview'' (JStr []))
            \<and> is_str (dict_get_default item ''title'' (JStr ''Unknown''))
         then None else Some TypeError))"

primrec SelectionDialog_init :: "string \<Rightarrow> string \<Rightarrow> dict list \<Rightarrow> exc_class option" where
  "SelectionDialog_init service stype [] = None"
| "SelectionDialog_init service stype (item # rest) =
     (case row_exception service stype item of
        Some e \<Rightarrow> Some e
      | None \<Rightarrow> SelectionDialog_init service stype rest)"

text \<open>
  \<open>on_search_finished\<close> up to its last statement, and then whole: its last statement
  is the call of \<open>process_next_item_in_queue\<close>. This is the slot running to its end: with
  two candidates or more, the chooser was constructed and has answered.
\<close>

definition search_finished_branch ::
  "dict list option \<Rightarrow> string \<Rightarrow> (dict list \<Rightarrow> dialog_answer) \<Rightarrow> tab \<Rightarrow> tab" where
  "search_finished_branch result err dialog s =
     (case (if err \<noteq> [] then None else result) of
        None \<Rightarrow>
          emit [Log LvError ''Search failed for {term}: {error}''
                  [opt_str (current_search_term s), JStr err],
                MessageBox BoxCritical ''Search Error'' [opt_str (current_search_term s), JStr err]] s
      | Some [] \<Rightarrow>
          emit [Log LvWarning ''No results found for {term}. Skipping.''
                  [opt_str (current_search_term s)]] s
      | Some [candidate] \<Rightarrow>
          on_item_selected candidate
            (emit [Log LvInfo ''Found 1 result for {term}. Auto-queueing for add.''
                     [opt_str (current_search_term s)]] s)
      | Some candidates \<Rightarrow>
          (let s1 = emit [Log LvInfo ''Found {n} results for {term}. Asking user.''
                            [JInt (int (length candidates)), opt_str (current_search_term s)],
                          SelectionDialogShown candidates] s
           in case dialog candidates of
                Rejected \<Rightarrow> emit [Log LvWarning ''User cancelled selection. Skipping.'' []] s1
              | Accepted [] \<Rightarrow>
                  emit [Log LvWarning ''User closed dialog without selection. Skipping.'' []] s1
              | Accepted selected_items \<Rightarrow>
                  foldl (\<lambda>st item. on_item_selected item st) s1 selected_items))"

definition on_search_finished ::
  "dict list option \<Rightarrow> string \<Rightarrow> (dict list \<Rightarrow> dialog_answer) \<Rightarrow> tab \<Rightarrow> tab" where
  "on_search_finished result err dialog s =
     process_next_item_in_queue (search_finished_branch result err dialog s)"

text \<open>
  \<open>on_search_finished\<close> when the constructor of the chooser raises: the slot has logged
  the number of results, the exception leaves it, no chooser is shown and
  \<open>process_next_item_in_queue\<close> is not reached.
\<close>

definition chooser_exception :: "dict list option \<Rightarrow> string \<Rightarrow> tab \<Rightarrow> exc_class option" where
  "chooser_exception result err s =
     (case (if err \<noteq> [] then None else result) of
        Some (c1 # c2 # rest) \<Rightarrow>
          SelectionDialog_init (service_name s) (current_search_type s) (c1 # c2 # rest)
      | _ \<Rightarrow> None)"

definition search_finished_raised :: "dict list option \<Rightarrow> string \<Rightarrow> tab \<Rightarrow> tab" where
  "search_finished_raised result err s =
     (case (chooser_exception result err s, result) of
        (Some e, Some candidates) \<Rightarrow>
          emit [Log LvInfo ''Found {n} results for {term}. Asking user.''
                  [JInt (int (length candidates)), opt_str (current_search_term s)],
                Unhandled e] s
      | _ \<Rightarrow> s)"

text \<open>\<open>on_add_finished\<close> up to its last statement, and whole.\<close>

definition is_duplicate_error :: "string \<Rightarrow> bool" where
  "is_duplicate_error err =
     (sublist ''400'' err \<and> (sublist ''already'' (lower err) \<or> sublist ''exist'' (lower err)))"

definition add_finished_branch :: "dict option \<Rightarrow> string \<Rightarrow> tab \<Rightarrow> tab" where
  "add_finished_branch result err s =
     (case (if err \<noteq> [] then None else result) of
        None \<Rightarrow>
          (if is_duplicate_error err then
             emit [Log LvWarning ''Item already exists in {service}. Skipping.''
                     [JStr (service_name s)]] s
           else
             emit [Log LvError ''Failed to add item: {error}'' [JStr err],
                   MessageBox BoxCritical ''Add Error'' [JStr err]] s)
      | Some r \<Rightarrow>
          emit [Log LvInfo ''Successfully added {title}.'' [title_of r (JStr ''Unknown Item'')],
                Publish ''item_added'' [JStr (service_name s), JObj r]] s)"

definition on_add_finished :: "dict option \<Rightarrow> string \<Rightarrow> tab \<Rightarrow> tab" where
  "on_add_finished result err s = process_next_item_in_queue (add_finished_branch result err s)"

section \<open>plugins/plugin\_arr\_base.py: status, root folders, quality profiles\<close>

definition check_status :: "tab \<Rightarrow> tab" where
  "check_status s = start_worker Status_thread Task_get_status On_status_finished s"

definition refresh_root_folders :: "tab \<Rightarrow> tab" where
  "refresh_root_folders s =
     start_worker Folders_thread Task_get_root_folders On_root_folders_finished s"

definition refresh_quality_profiles :: "tab \<Rightarrow> tab" where
  "refresh_quality_profiles s =
     start_worker Profiles_thread Task_get_quality_profiles On_quality_profiles_finished s"

definition on_status_finished :: "dict option \<Rightarrow> string \<Rightarrow> tab \<Rightarrow> tab" where
  "on_status_finished result err s =
     (case (if err \<noteq> [] then None else result) of
        None \<Rightarrow>
          emit [Log LvWarning ''service is unavailable: {error}'' [JStr err],
                Publish ''service_status_changed'' [JStr (service_name s), JStr ''down'']] s
      | Some r \<Rightarrow>
          (if dict_get r ''status'' = JStr ''down'' then
             emit [Log LvWarning ''service is unavailable: {error}'' [JStr err],
                   Publish ''service_status_changed'' [JStr (service_name s), JStr ''down'']] s
           else
             refresh_quality_profiles
               (refresh_root_folders
                  (emit [Publish ''service_status_changed'' [JStr (service_name s), JStr ''up'']] s))))"

text \<open>
  The label of a root folder divides \<open>freeSpace\<close> (0 when absent), which raises unless
  it is a number; the text of a quality profile is its \<open>name\<close> (\<open>Unknown\<close> when absent),
  which \<open>addItem\<close> is taken to refuse unless it is a string, as its signature says. The
  box was cleared before, and keeps the entries added before the exception.
\<close>

definition folder_label_ok :: "dict \<Rightarrow> bool" where
  "folder_label_ok folder =
     (case dict_get_default folder ''freeSpace'' (JInt 0) of
        JInt _ \<Rightarrow> True | JBool _ \<Rightarrow> True | _ \<Rightarrow> False)"

definition profile_text_ok :: "dict \<Rightarrow> bool" where
  "profile_text_ok profile = is_str (dict_get_default profile ''name'' (JStr ''Unknown''))"

definition on_root_folders_finished :: "dict list option \<Rightarrow> string \<Rightarrow> tab \<Rightarrow> tab" where
  "on_root_folders_finished result err s =
     (case (if err \<noteq> [] then None else result) of
        None \<Rightarrow> emit [Log LvError ''Failed to fetch root folders: {error}'' [JStr err]] s
      | Some folders \<Rightarrow>
          emit (if list_all folder_label_ok folders then [] else [Unhandled TypeError])
            (s\<lparr>combo_root_folder :=
                 foldl (\<lambda>c folder. addItem c [(''id'', dict_get folder ''id''),
                                               (''path'', dict_get folder ''path'')])
                   (clear (combo_root_folder s)) (takeWhile folder_label_ok folders)\<rparr>))"

definition on_quality_profiles_finished :: "dict list option \<Rightarrow> string \<Rightarrow> tab \<Rightarrow> tab" where
  "on_quality_profiles_finished result err s =
     (case (if err \<noteq> [] then None else result) of
        None \<Rightarrow> emit [Log LvError ''Failed to fetch quality profiles: {error}'' [JStr err]] s
      | Some profiles \<Rightarrow>
          emit (if list_all profile_text_ok profiles then [] else [Unhandled TypeError])
            (s\<lparr>combo_quality_profile :=
                 foldl (\<lambda>c profile. addItem c [(''id'', dict_get profile ''id'')])
                   (clear (combo_quality_profile s)) (takeWhile profile_text_ok profiles)\<rparr>))"

text \<open>plugins/plugin\_lidarr.py: \<open>_on_search_type_changed\<close>.\<close>

definition on_search_type_changed :: "string \<Rightarrow> tab \<Rightarrow> tab" where
  "on_search_type_changed txt s = s\<lparr>current_search_type := lower txt\<rparr>"

section \<open>The tab as a transition system\<close>

text \<open>
  What can happen to a tab: the user's actions, an add request from the event bus, the
  \<open>finished\<close> signal of a worker reaching the slot it was connected to, and the
  \<open>finished\<close> signal of a thread. The completion signal of a worker is delivered at
  most once, to the slot that was connected when the worker was started. Each handler
  runs to its end, or until an exception leaves it, before the next event. The
  completion of a search is two events: \<open>Ev_search_finished\<close> is the slot running to its
  end, which with two candidates or more is what the source does when the constructor
  of the chooser returns; \<open>Ev_search_finished_raised\<close> is the slot left by the exception
  of that constructor, and happens only where the constructor raises. After an
  exception has left a handler, the model goes on with the tab as the handler left it.
  The source connects the slot before \<open>thread.quit\<close>, so the slot runs before the end
  of the thread; a modal dialog opened by the slot lets the thread end while the slot
  is still running, which the model covers by allowing the end of the thread to come
  first.
\<close>

datatype event =
    Ev_check_status
  | Ev_refresh_root_folders
  | Ev_refresh_quality_profiles
  | Ev_add_from_text string
  | Ev_import_from_csv string "py_exception + string list list"
  | Ev_add_request string string string
  | Ev_select_root nat
  | Ev_select_profile nat
  | Ev_search_type_changed string
  | Ev_status_finished nat "dict option" string
  | Ev_root_folders_finished nat "dict list option" string
  | Ev_quality_profiles_finished nat "dict list option" string
  | Ev_search_finished nat "dict list option" string "dict list \<Rightarrow> dialog_answer"
  | Ev_search_finished_raised nat "dict list option" string
  | Ev_add_finished nat "dict option" string
  | Ev_thread_finished nat

definition connected :: "nat \<Rightarrow> slot \<Rightarrow> tab \<Rightarrow> bool" where
  "connected i sl s = (\<exists>t \<in> set (workers s). th_id t = i \<and> th_slot t = sl)"

definition delivered :: "nat \<Rightarrow> tab \<Rightarrow> tab" where
  "delivered i s = s\<lparr>workers := filter (\<lambda>t. th_id t \<noteq> i) (workers s)\<rparr>"

definition select_index :: "nat \<Rightarrow> combo_box \<Rightarrow> combo_box" where
  "select_index i c = (if i < length (combo_items c) then c\<lparr>combo_index := i\<rparr> else c)"

fun step :: "event \<Rightarrow> tab \<Rightarrow> tab" where
  "step Ev_check_status s = check_status s"
| "step Ev_refresh_root_folders s = refresh_root_folders s"
| "step Ev_refresh_quality_profiles s = refresh_quality_profiles s"
| "step (Ev_add_from_text txt) s = add_from_text (s\<lparr>search_input := txt\<rparr>)"
| "step (Ev_import_from_csv file_path contents) s = import_from_csv file_path contents s"
| "step (Ev_add_request name search_term stype) s = on_add_request name search_term stype s"
| "step (Ev_select_root i) s = s\<lparr>combo_root_folder := select_index i (combo_root_folder s)\<rparr>"
| "step (Ev_select_profile i) s =
     s\<lparr>combo_quality_profile := select_index i (combo_quality_profile s)\<rparr>"
| "step (Ev_search_type_changed txt) s = on_search_type_changed txt s"
| "step (Ev_status_finished i result err) s =
     (if connected i On_status_finished s then on_status_finished result err (delivered i s)
      else s)"
| "step (Ev_root_folders_finished i result err) s =
     (if connected i On_root_folders_finished s
      then on_root_folders_finished result err (delivered i s) else s)"
| "step (Ev_quality_profiles_finished i result err) s =
     (if connected i On_quality_profiles_finished s
      then on_quality_profiles_finished result err (delivered i s) else s)"
| "step (Ev_search_finished i result err dialog) s =
     (if connected i On_search_finished s
      then on_search_finished result err dialog (delivered i s) else s)"
| "step (Ev_search_finished_raised i result err) s =
     (if connected i On_search_finished s \<and> chooser_exception result err s \<noteq> None
      then search_finished_raised result err (delivered i s) else s)"
| "step (Ev_add_finished i result err) s =
     (if connected i On_add_finished s then on_add_finished result err (delivered i s) else s)"
| "step (Ev_thread_finished i) s = thread_finished i s"

definition run_events :: "event list \<Rightarrow> tab \<Rightarrow> tab" where
  "run_events es s = foldl (\<lambda>st e. step e st) s es"

text \<open>The workers outstanding under one thread attribute, and the operations of the queue.\<close>

definition outstanding :: "thread_attr \<Rightarrow> tab \<Rightarrow> qthread list" where
  "outstanding a s = filter (\<lambda>t. th_attr t = a) (threads s)"

definition started_by :: "(tab \<Rightarrow> tab) \<Rightarrow> tab \<Rightarrow> task list" where
  "started_by f s = map th_task (drop (length (threads s)) (threads (f s)))"

definition choosers :: "tab \<Rightarrow> nat" where
  "choosers s = length (filter (\<lambda>e. case e of SelectionDialogShown _ \<Rightarrow> True | _ \<Rightarrow> False) (effects s))"

definition error_boxes :: "tab \<Rightarrow> nat" where
  "error_boxes s =
     length (filter (\<lambda>e. case e of MessageBox BoxCritical _ _ \<Rightarrow> True | _ \<Rightarrow> False) (effects s))"

section \<open>The worker tasks: resolver and submitter\<close>

text \<open>
  The tab classes and the properties they override. \<open>ArrTab\<close> itself serves Sonarr.
\<close>

datatype tab_class = ArrTab | RadarrTab | LidarrTab

fun api_version :: "tab_class \<Rightarrow> string" where
  "api_version LidarrTab = ''v1''"
| "api_version _ = ''v3''"

fun item_search_endpoint :: "tab_class \<Rightarrow> string" where
  "item_search_endpoint LidarrTab = []"
| "item_search_endpoint _ = ''movie/lookup''"

fun item_add_endpoint :: "tab_class \<Rightarrow> string" where
  "item_add_endpoint LidarrTab = ''artist''"
| "item_add_endpoint _ = ''movie''"

text \<open>
  One call of \<open>ApiClient.api_request\<close>, and the collaborators a task reads: the
  settings (the \<open>url\<close> of a plugin, Prowlarr's \<open>enabled\<close>), the credential store, the
  API client as a black box from the request to the parsed body or the exception it
  raises, and Python's \<open>str()\<close> on a JSON value, which the f-strings apply.
\<close>

record request =
  req_method :: string
  req_url :: string
  req_api_key :: string
  req_service :: string
  req_params :: "(string \<times> string) list"
  req_json :: "dict option"
  req_timeout :: "nat option"

record env =
  setting_url :: "string \<Rightarrow> string option"
  credential :: "string \<Rightarrow> string option"
  prowlarr_enabled :: bool
  api_request :: "request \<Rightarrow> py_exception + json"
  str_of :: "json \<Rightarrow> string"

text \<open>What a task does on its way: the requests it issues and the records it logs.\<close>

datatype tlog = Request request | TaskLog level string

fun requests :: "tlog list \<Rightarrow> request list" where
  "requests [] = []"
| "requests (Request r # ls) = r # requests ls"
| "requests (_ # ls) = requests ls"

fun warnings :: "tlog list \<Rightarrow> string list" where
  "warnings [] = []"
| "warnings (TaskLog LvWarning m # ls) = m # warnings ls"
| "warnings (_ # ls) = warnings ls"

definition rstrip_slash :: "string \<Rightarrow> string" where
  "rstrip_slash s = rev (dropWhile (\<lambda>c. c = CHR ''/'') (rev s))"

definition falsy_str :: "string option \<Rightarrow> bool" where
  "falsy_str v = (case v of None \<Rightarrow> True | Some x \<Rightarrow> x = [])"

definition get_arr_base_url :: "env \<Rightarrow> string \<Rightarrow> py_exception + (string \<times> string)" where
  "get_arr_base_url ev name =
     (case (setting_url ev name, credential ev (name @ ''_api_key'')) of
        (Some base_url, Some api_key) \<Rightarrow>
          (if base_url = [] \<or> api_key = []
           then Inl (PyExc ValueError (name @ '' URL or API Key is not set in settings.''))
           else Inr (rstrip_slash base_url, api_key))
      | _ \<Rightarrow> Inl (PyExc ValueError (name @ '' URL or API Key is not set in settings.'')))"

definition task_prowlarr_search :: "env \<Rightarrow> string \<Rightarrow> string \<Rightarrow> tlog list \<times> (py_exception + json)" where
  "task_prowlarr_search ev name query =
     (case setting_url ev ''prowlarr'' of
        None \<Rightarrow>
          ([], Inl (PyExc AttributeError
                 (squote ''NoneType'' @ '' object has no attribute '' @ squote ''rstrip'')))
      | Some u \<Rightarrow>
          (case credential ev ''prowlarr_api_key'' of
             None \<Rightarrow> ([], Inl (PyExc ValueError ''Prowlarr not enabled or configured.''))
           | Some prowlarr_api \<Rightarrow>
               (if rstrip_slash u = [] \<or> prowlarr_api = [] \<or> \<not> prowlarr_enabled ev
                then ([], Inl (PyExc ValueError ''Prowlarr not enabled or configured.''))
                else
                  (let r = \<lparr>req_method = ''GET'',
                            req_url = rstrip_slash u @ ''/api/v1/search'',
                            req_api_key = prowlarr_api,
                            req_service = ''prowlarr'',
                            req_params =
                              [(''query'', query),
                               (''categories'', if name = ''sonarr'' then ''5000'' else ''2000''),
                               (''type'', ''search'')],
                            req_json = None,
                            req_timeout = Some 30\<rparr>
                   in ([Request r], api_request ev r)))))"

text \<open>
  The identifier one Prowlarr result is looked up by. Reading a field of a result that
  is not a dictionary raises.
\<close>

definition no_attribute_get :: "json \<Rightarrow> py_exception" where
  "no_attribute_get v =
     PyExc AttributeError (squote (type_name v) @ '' object has no attribute '' @ squote ''get'')"

definition lookup_id_of :: "env \<Rightarrow> string \<Rightarrow> json \<Rightarrow> py_exception + string option" where
  "lookup_id_of ev name item =
     (if name = ''sonarr'' then
        (case item of
           JObj d \<Rightarrow>
             Inr (if truthy (dict_get d ''tvdbId'')
                  then Some (''tvdb:'' @ str_of ev (dict_get d ''tvdbId''))
                  else None)
         | v \<Rightarrow> Inl (no_attribute_get v))
      else if name = ''radarr'' then
        (case item of
           JObj d \<Rightarrow>
             Inr (if truthy (dict_get d ''tmdbId'')
                  then Some (''tmdb:'' @ str_of ev (dict_get d ''tmdbId''))
                  else if truthy (dict_get d ''imdbId'')
                  then Some (''imdb:'' @ str_of ev (dict_get d ''imdbId''))
                  else None)
         | v \<Rightarrow> Inl (no_attribute_get v))
      else Inr None)"

definition lookup_request :: "string \<Rightarrow> string \<Rightarrow> string \<Rightarrow> string \<Rightarrow> request" where
  "lookup_request endpoint api_key name lookup_id =
     \<lparr>req_method = ''GET'', req_url = endpoint, req_api_key = api_key, req_service = name,
      req_params = [(''term'', lookup_id)], req_json = None, req_timeout = Some 10\<rparr>"

definition first_hit :: "py_exception + json \<Rightarrow> json list" where
  "first_hit response = (case response of Inr (JList (h # _)) \<Rightarrow> [h] | _ \<Rightarrow> [])"

text \<open>
  The loop of \<open>_task_prowlarr_to_arr_lookup\<close> over the results it was given, with the
  two accumulators \<open>arr_results\<close> and \<open>seen_ids\<close>.
\<close>

fun lookup_loop ::
  "env \<Rightarrow> string \<Rightarrow> string \<Rightarrow> string \<Rightarrow> json list \<Rightarrow> json list \<Rightarrow> string list
   \<Rightarrow> tlog list \<times> (py_exception + json list)" where
  "lookup_loop ev name endpoint api_key [] arr_results seen_ids = ([], Inr arr_results)"
| "lookup_loop ev name endpoint api_key (item # rest) arr_results seen_ids =
     (case lookup_id_of ev name item of
        Inl e \<Rightarrow> ([], Inl e)
      | Inr None \<Rightarrow> lookup_loop ev name endpoint api_key rest arr_results seen_ids
      | Inr (Some lookup_id) \<Rightarrow>
          (if lookup_id \<in> set seen_ids
           then lookup_loop ev name endpoint api_key rest arr_results seen_ids
           else
             (let r = lookup_request endpoint api_key name lookup_id;
                  (tr, res) = lookup_loop ev name endpoint api_key rest
                                (arr_results @ first_hit (api_request ev r)) (lookup_id # seen_ids)
              in (Request r # tr, res))))"

text \<open>
  \<open>prowlarr_results[:10]\<close>: the first ten elements of a list, the first ten characters
  of a string; any other value cannot be sliced (a dictionary raises \<open>TypeError\<close> up to
  Python 3.11 and \<open>KeyError\<close> from 3.12 on; the model takes the former).
\<close>

definition slice10 :: "json \<Rightarrow> py_exception + json list" where
  "slice10 v =
     (case v of
        JList xs \<Rightarrow> Inr (take 10 xs)
      | JStr cs \<Rightarrow> Inr (map (\<lambda>c. JStr [c]) (take 10 cs))
      | JObj _ \<Rightarrow> Inl (PyExc TypeError (''unhashable type: '' @ squote ''slice''))
      | v \<Rightarrow> Inl (PyExc TypeError (squote (type_name v) @ '' object is not subscriptable'')))"

definition task_prowlarr_to_arr_lookup ::
  "env \<Rightarrow> tab_class \<Rightarrow> string \<Rightarrow> json \<Rightarrow> tlog list \<times> (py_exception + json list)" where
  "task_prowlarr_to_arr_lookup ev cls name prowlarr_results =
     (case get_arr_base_url ev name of
        Inl e \<Rightarrow> ([], Inl e)
      | Inr (base_url, api_key) \<Rightarrow>
          (case slice10 prowlarr_results of
             Inl e \<Rightarrow> ([], Inl e)
           | Inr items \<Rightarrow>
               lookup_loop ev name
                 (base_url @ ''/api/'' @ api_version cls @ ''/'' @ item_search_endpoint cls)
                 api_key items [] []))"

text \<open>The standard lookup at the end of \<open>_task_search_item\<close>.\<close>

definition standard_lookup ::
  "env \<Rightarrow> tab_class \<Rightarrow> string \<Rightarrow> string \<Rightarrow> tlog list \<times> (py_exception + json)" where
  "standard_lookup ev cls name term_text =
     (case get_arr_base_url ev name of
        Inl e \<Rightarrow> ([], Inl e)
      | Inr (base_url, api_key) \<Rightarrow>
          (let r = \<lparr>req_method = ''GET'',
                    req_url = base_url @ ''/api/'' @ api_version cls @ ''/'' @ item_search_endpoint cls,
                    req_api_key = api_key, req_service = name,
                    req_params = [(''term'', term_text)], req_json = None, req_timeout = None\<rparr>
           in ([Request r], api_request ev r)))"

text \<open>
  \<open>_task_search_item\<close> as \<open>ArrTab\<close> defines it. The body of its \<open>try\<close> returns the
  cross-referenced results (\<open>Some\<close>), reaches its last line, the warning (\<open>None\<close>),
  or raises.
\<close>

definition prowlarr_path ::
  "env \<Rightarrow> tab_class \<Rightarrow> string \<Rightarrow> string \<Rightarrow> tlog list \<times> (py_exception + json list option)" where
  "prowlarr_path ev cls name term_text =
     (case task_prowlarr_search ev name term_text of
        (tr1, Inl e) \<Rightarrow> (tr1, Inl e)
      | (tr1, Inr prowlarr_results) \<Rightarrow>
          (if truthy prowlarr_results then
             (case task_prowlarr_to_arr_lookup ev cls name prowlarr_results of
                (tr2, Inl e) \<Rightarrow> (tr1 @ tr2, Inl e)
              | (tr2, Inr arr_results) \<Rightarrow>
                  (if arr_results \<noteq> [] then (tr1 @ tr2, Inr (Some arr_results))
                   else (tr1 @ tr2, Inr None)))
           else (tr1, Inr None)))"

definition task_search_item ::
  "env \<Rightarrow> tab_class \<Rightarrow> string \<Rightarrow> string \<Rightarrow> string \<Rightarrow> tlog list \<times> (py_exception + json)" where
  "task_search_item ev cls name term_text stype =
     (if name \<in> set [''sonarr'', ''radarr''] then
        (case prowlarr_path ev cls name term_text of
           (tr, Inr (Some arr_results)) \<Rightarrow> (tr, Inr (JList arr_results))
         | (tr, Inr None) \<Rightarrow>
             (let (tr3, res) = standard_lookup ev cls name term_text
              in (tr @ [TaskLog LvWarning
                         ''Prowlarr returned no usable results, falling back to direct search'']
                     @ tr3, res))
         | (tr, Inl e) \<Rightarrow>
             (let (tr3, res) = standard_lookup ev cls name term_text
              in (tr @ [TaskLog LvWarning
                         (''Prowlarr search failed, falling back to direct search: '' @ exc_str e)]
                     @ tr3, res)))
      else standard_lookup ev cls name term_text)"

text \<open>
  plugins/plugin\_lidarr.py: \<open>LidarrTab\<close> overrides \<open>_task_search_item\<close>. An album is looked
  up directly; artists are searched, and the \<open>artist\<close> of every hit that has one is
  taken out of its wrapper. A falsy answer becomes the empty list.
\<close>

definition iterate :: "json \<Rightarrow> py_exception + json list" where
  "iterate v =
     (case v of
        JList xs \<Rightarrow> Inr xs
      | JStr cs \<Rightarrow> Inr (map (\<lambda>c. JStr [c]) cs)
      | JObj d \<Rightarrow> Inr (map (\<lambda>kv. JStr (fst kv)) d)
      | _ \<Rightarrow> Inl (PyExc TypeError (squote (type_name v) @ '' object is not iterable'')))"

fun unwrap_artists :: "json list \<Rightarrow> py_exception + json list" where
  "unwrap_artists [] = Inr []"
| "unwrap_artists (JObj d # rest) =
     (case unwrap_artists rest of
        Inl e \<Rightarrow> Inl e
      | Inr artists \<Rightarrow>
          Inr (if truthy (dict_get d ''artist'') then dict_get d ''artist'' # artists else artists))"
| "unwrap_artists (v # rest) = Inl (no_attribute_get v)"

definition lidarr_task_search_item ::
  "env \<Rightarrow> string \<Rightarrow> string \<Rightarrow> string \<Rightarrow> tlog list \<times> (py_exception + json)" where
  "lidarr_task_search_item ev name term_text stype =
     (case get_arr_base_url ev name of
        Inl e \<Rightarrow> ([], Inl e)
      | Inr (base_url, api_key) \<Rightarrow>
          (if stype = ''album'' then
             (let r = \<lparr>req_method = ''GET'', req_url = base_url @ ''/api/v1/album/lookup'',
                       req_api_key = api_key, req_service = name,
                       req_params = [(''term'', term_text)], req_json = None, req_timeout = None\<rparr>
              in ([TaskLog LvInfo (''Lidarr searching for ALBUM: '' @ term_text @ ''...''), Request r],
                  case api_request ev r of
                    Inl e \<Rightarrow> Inl e
                  | Inr response \<Rightarrow> Inr (if truthy response then response else JList [])))
           else
             (let r = \<lparr>req_method = ''GET'', req_url = base_url @ ''/api/v1/search'',
                       req_api_key = api_key, req_service = name,
                       req_params = [(''term'', term_text)], req_json = None, req_timeout = None\<rparr>
              in ([TaskLog LvInfo (''Lidarr searching for ARTIST: '' @ term_text @ ''...''), Request r],
                  case api_request ev r of
                    Inl e \<Rightarrow> Inl e
                  | Inr response \<Rightarrow>
                      (case iterate response of
                         Inl e \<Rightarrow> Inl e
                       | Inr hits \<Rightarrow>
                           (case unwrap_artists hits of
                              Inl e \<Rightarrow> Inl e
                            | Inr artists \<Rightarrow> Inr (JList artists)))))))"

text \<open>The method a tab of a class runs for the task \<open>_task_search_item\<close>.\<close>

definition search_item_method ::
  "env \<Rightarrow> tab_class \<Rightarrow> string \<Rightarrow> string \<Rightarrow> string \<Rightarrow> tlog list \<times> (py_exception + json)" where
  "search_item_method ev cls name term_text stype =
     (if cls = LidarrTab then lidarr_task_search_item ev name term_text stype
      else task_search_item ev cls name term_text stype)"

text \<open>
  \<open>_build_add_payload\<close>: the default of \<open>ArrTab\<close>, repeated by \<open>RadarrTab\<close>, and the
  override of \<open>LidarrTab\<close>.
\<close>

definition spread :: "string list \<Rightarrow> dict \<Rightarrow> dict \<Rightarrow> dict" where
  "spread ks src d =
     foldl (\<lambda>acc k. case map_of src k of None \<Rightarrow> acc | Some v \<Rightarrow> AList.update k v acc) d ks"

fun build_add_payload :: "tab_class \<Rightarrow> pending_add_item \<Rightarrow> py_exception + dict" where
  "build_add_payload LidarrTab item_data =
     (if search_type item_data = ''album'' then
        Inl (PyExc ValueError
          ''Adding albums directly is not supported by this tool. Please search for and add the artist.'')
      else
        Inr (spread [''artistName'', ''foreignArtistId'', ''images''] (item_json item_data)
          [(''foreignArtistId'', dict_get (item_json item_data) ''foreignArtistId''),
           (''artistName'', dict_get (item_json item_data) ''artistName''),
           (''qualityProfileId'', quality_profile_id item_data),
           (''metadataProfileId'', JInt 1),
           (''rootFolderPath'', root_folder_path item_data),
           (''monitored'', JBool True),
           (''addOptions'', JObj [(''searchForMissingAlbums'', JBool True),
                                  (''monitor'', JStr ''all'')])]))"
| "build_add_payload _ item_data =
     Inr (spread [''titleSlug'', ''images'', ''year''] (item_json item_data)
       [(''tmdbId'', dict_get (item_json item_data) ''tmdbId''),
        (''title'', dict_get (item_json item_data) ''title''),
        (''qualityProfileId'', quality_profile_id item_data),
        (''rootFolderPath'', root_folder_path item_data),
        (''monitored'', JBool True),
        (''addOptions'', JObj [(''searchForMovie'', JBool True)])])"

definition task_add_item ::
  "env \<Rightarrow> tab_class \<Rightarrow> string \<Rightarrow> pending_add_item \<Rightarrow> tlog list \<times> (py_exception + json)" where
  "task_add_item ev cls name item_data =
     (case get_arr_base_url ev name of
        Inl e \<Rightarrow> ([], Inl e)
      | Inr (base_url, api_key) \<Rightarrow>
          (case build_add_payload cls item_data of
             Inl e \<Rightarrow> ([], Inl e)
           | Inr payload \<Rightarrow>
               (let r = \<lparr>req_method = ''POST'',
                         req_url = base_url @ ''/api/'' @ api_version cls @ ''/'' @ item_add_endpoint cls,
                         req_api_key = api_key, req_service = name,
                         req_params = [], req_json = Some payload, req_timeout = None\<rparr>
                in ([Request r], api_request ev r))))"

text \<open>
  The cross-reference step as the specification words it: the identifiers of the
  first ten results, each kept at its first occurrence, one lookup per identifier, and
  the first hit of every lookup that answered with a non-empty list.
\<close>

fun dedup :: "'a list \<Rightarrow> 'a list" where
  "dedup [] = []"
| "dedup (x # xs) = x # dedup (filter (\<lambda>y. y \<noteq> x) xs)"

definition identifiers :: "env \<Rightarrow> string \<Rightarrow> json list \<Rightarrow> string list" where
  "identifiers ev name items =
     dedup (concat (map (\<lambda>item. case lookup_id_of ev name item of
                                   Inr (Some i) \<Rightarrow> [i] | _ \<Rightarrow> []) items))"

text \<open>The identifiers of a list of results, in order, with repetitions.\<close>

definition extracted :: "env \<Rightarrow> string \<Rightarrow> json list \<Rightarrow> string list" where
  "extracted ev name items =
     concat (map (\<lambda>item. case lookup_id_of ev name item of Inr (Some i) \<Rightarrow> [i] | _ \<Rightarrow> []) items)"

definition is_dict :: "json \<Rightarrow> bool" where
  "is_dict v = (case v of JObj _ \<Rightarrow> True | _ \<Rightarrow> False)"

text \<open>
  The bookkeeping that ties the thread attributes to the threads alive: under every
  attribute the threads alive are exactly the one the attribute holds, and thread
  identifiers are not reused.
\<close>

definition all_attrs :: "thread_attr list" where
  "all_attrs = [Status_thread, Folders_thread, Profiles_thread, Search_thread]"

definition tab_inv :: "tab \<Rightarrow> bool" where
  "tab_inv s =
     (list_all (\<lambda>a. map th_id (outstanding a s) = (case getattr s a of None \<Rightarrow> [] | Some i \<Rightarrow> [i]))
        all_attrs
      \<and> list_all (\<lambda>t. th_id t < next_thread s) (threads s)
      \<and> distinct (map th_id (threads s)))"

text \<open>The operations of the queue among the threads alive: resolve and submit.\<close>

fun is_queue_task :: "task \<Rightarrow> bool" where
  "is_queue_task (Task_search_item _ _) = True"
| "is_queue_task (Task_add_item _) = True"
| "is_queue_task _ = False"


definition task_inv :: "tab \<Rightarrow> bool" where
  "task_inv s = list_all (\<lambda>t. is_queue_task (th_task t) = (th_attr t = Search_thread)) (threads s)"

section \<open>Sample runs\<close>

text \<open>
  A Radarr tab after its first status check: the service answered, one root folder and
  one quality profile were loaded, and the three threads have finished. Then the same
  tab with the term \<open>Dune\<close> entered, whose search is in flight.
\<close>

definition status_up :: dict where
  "status_up = [(''status'', JStr ''up'')]"

definition sample_folder :: dict where
  "sample_folder = [(''id'', JInt 1), (''path'', JStr ''/movies''), (''freeSpace'', JInt 0)]"

definition sample_profile :: dict where
  "sample_profile = [(''id'', JInt 5), (''name'', JStr ''HD'')]"

definition dune :: dict where
  "dune = [(''title'', JStr ''Dune''), (''tmdbId'', JInt 438631), (''year'', JInt 2021)]"

definition dune_1984 :: dict where
  "dune_1984 = [(''title'', JStr ''Dune''), (''tmdbId'', JInt 841), (''year'', JInt 1984)]"

definition no_dialog :: "dict list \<Rightarrow> dialog_answer" where
  "no_dialog candidates = Rejected"

definition choose_last :: "dict list \<Rightarrow> dialog_answer" where
  "choose_last candidates = Accepted [last candidates]"

definition startup_events :: "event list" where
  "startup_events =
     [Ev_check_status,
      Ev_status_finished 0 (Some status_up) [],
      Ev_thread_finished 0,
      Ev_root_folders_finished 1 (Some [sample_folder]) [],
      Ev_quality_profiles_finished 2 (Some [sample_profile]) [],
      Ev_thread_finished 1,
      Ev_thread_finished 2]"

definition ready_tab :: tab where
  "ready_tab = run_events startup_events (ArrTab_init ''radarr'')"

definition busy_tab :: tab where
  "busy_tab = step (Ev_add_from_text ''Dune'') ready_tab"

text \<open>
  The search comes back with one candidate, which is queued while the thread of the
  search is still there; and the same tab once an add is in flight.
\<close>

definition queued_tab :: tab where
  "queued_tab = step (Ev_search_finished 3 (Some [dune]) [] no_dialog) busy_tab"

definition adding_tab :: tab where
  "adding_tab =
     step (Ev_search_finished 3 (Some [dune]) [] no_dialog) (step (Ev_thread_finished 3) busy_tab)"

text \<open>
  A batch of two terms read from a CSV file into the ready tab: \<open>Dune\<close> is in flight and
  \<open>Arrival\<close> waits. Then the batch after the first search found one candidate and its
  thread ended (an add item and a term wait, nothing is in flight), and after it found
  none (only the term waits).
\<close>

definition batch_rows :: "string list list" where
  "batch_rows = [[''title''], [''Dune''], [''Arrival'']]"

definition batch_tab :: tab where
  "batch_tab = step (Ev_import_from_csv ''batch.csv'' (Inr batch_rows)) ready_tab"

definition both_tab :: tab where
  "both_tab =
     run_events [Ev_search_finished 3 (Some [dune]) [] no_dialog, Ev_thread_finished 3] batch_tab"

definition terms_tab :: tab where
  "terms_tab =
     run_events [Ev_search_finished 3 (Some []) [] no_dialog, Ev_thread_finished 3] batch_tab"



text \<open>
  The batch in the order of the signals. The search for \<open>Dune\<close> finds two candidates:
  the chooser is open while the thread of the search ends, the user takes the later
  film, and the slot dispatches the add. The service refuses the add as a duplicate:
  the slot runs, then the thread of the add ends. Beside it, the same add refused for
  another reason: the slot opens the error box, during which the thread ends.
\<close>

definition duplicate_error :: string where
  "duplicate_error = ''400 Client Error: This movie has already been added''"

definition submitting_tab :: tab where
  "submitting_tab =
     run_events [Ev_thread_finished 3,
                 Ev_search_finished 3 (Some [dune, dune_1984]) [] choose_last] batch_tab"

definition stalled_tab :: tab where
  "stalled_tab =
     run_events [Ev_add_finished 4 None duplicate_error, Ev_thread_finished 4] submitting_tab"

definition refused_tab :: tab where
  "refused_tab =
     run_events [Ev_thread_finished 4, Ev_add_finished 4 None ''500 Server Error''] submitting_tab"

text \<open>The PendingAddItem that \<open>on_item_selected\<close> queues for a candidate.\<close>

definition pending_of :: "dict \<Rightarrow> dict \<Rightarrow> string \<Rightarrow> dict \<Rightarrow> pending_add_item" where
  "pending_of root_data profile_data stype candidate =
     \<lparr>item_json = candidate,
      root_folder_id = dict_get root_data ''id'',
      root_folder_path = dict_get root_data ''path'',
      quality_profile_id = dict_get profile_data ''id'',
      search_type = stype\<rparr>"


text \<open>
  A sample environment: Radarr and Prowlarr are configured, and the service knows two
  films by their identifiers. \<open>str()\<close> is given on the scalar values, which is what
  identifiers are.
\<close>

function decimal :: "nat \<Rightarrow> string" where
  "decimal n =
     (if n < 10 then [''0123456789'' ! n]
      else decimal (n div 10) @ [''0123456789'' ! (n mod 10)])"
  by pat_completeness auto
termination
  by (relation "measure id") auto

fun str_scalar :: "json \<Rightarrow> string" where
  "str_scalar (JStr x) = x"
| "str_scalar (JInt n) = (if n < 0 then ''-'' @ decimal (nat (- n)) else decimal (nat n))"
| "str_scalar (JBool b) = (if b then ''True'' else ''False'')"
| "str_scalar _ = ''None''"

definition sample_results :: "json list" where
  "sample_results =
     [JObj [(''title'', JStr ''Dune 2021 1080p''), (''tmdbId'', JInt 438631)],
      JObj [(''title'', JStr ''Dune 2021 2160p''), (''tmdbId'', JInt 438631)],
      JObj [(''title'', JStr ''Dune 1984''), (''imdbId'', JStr ''tt0087182'')],
      JObj [(''title'', JStr ''Dune sampler'')],
      JObj [(''title'', JStr ''Dune 2000''), (''tmdbId'', JInt 876)]]"

definition sample_api :: "request \<Rightarrow> py_exception + json" where
  "sample_api r =
     (if req_service r = ''prowlarr'' then Inr (JList sample_results)
      else if req_method r = ''POST'' then Inr (JObj [(''title'', JStr ''Dune'')])
      else if req_params r = [(''term'', ''tmdb:438631'')] then Inr (JList [JObj dune])
      else if req_params r = [(''term'', ''imdb:tt0087182'')] then Inr (JList [JObj dune_1984, JObj dune])
      else if req_params r = [(''term'', ''tmdb:876'')]
      then Inl (PyExc HTTPError ''500 Server Error'')
      else Inr (JList []))"

definition sample_env :: env where
  "sample_env =
     \<lparr>setting_url = (\<lambda>name. if name = ''prowlarr'' then Some ''http://host:9696/''
                           else Some ''http://host:7878/''),
      credential = (\<lambda>key. Some ''secret''),
      prowlarr_enabled = True,
      api_request = sample_api,
      str_of = str_scalar\<rparr>"

definition unconfigured_env :: env where
  "unconfigured_env = sample_env\<lparr>prowlarr_enabled := False\<rparr>"

definition album_item :: pending_add_item where
  "album_item =
     \<lparr>item_json = [(''title'', JStr ''Kind of Blue''), (''foreignAlbumId'', JStr ''a1'')],
      root_folder_id = JInt 1, root_folder_path = JStr ''/music'',
      quality_profile_id = JInt 2, search_type = ''album''\<rparr>"

section \<open>Threads alive and thread attributes\<close>

lemma thr_emit [simp]:
  "threads (emit es s) = threads s" "next_thread (emit es s) = next_thread s"
  "getattr (emit es s) a = getattr s a"
  "search_thread (emit es s) = search_thread s"
  "items_to_add_queue (emit es s) = items_to_add_queue s"
  "terms_to_add_queue (emit es s) = terms_to_add_queue s"
  by (cases a; simp add: emit_def)+

lemma tab_inv_cong:
  assumes "threads s' = threads s" "next_thread s' = next_thread s"
    "status_thread s' = status_thread s" "folders_thread s' = folders_thread s"
    "profiles_thread s' = profiles_thread s" "search_thread s' = search_thread s"
  shows "tab_inv s' = tab_inv s"
  using assms by (simp add: tab_inv_def all_attrs_def outstanding_def)

lemma tab_inv_emit [simp]: "tab_inv (emit es s) = tab_inv s"
  by (rule tab_inv_cong) (simp_all add: emit_def)

lemma tab_inv_upd [simp]:
  "tab_inv (s\<lparr>terms_to_add_queue := a1\<rparr>) = tab_inv s"
  "tab_inv (s\<lparr>items_to_add_queue := a2\<rparr>) = tab_inv s"
  "tab_inv (s\<lparr>terms_to_add_total_count := a3\<rparr>) = tab_inv s"
  "tab_inv (s\<lparr>current_search_term := a4\<rparr>) = tab_inv s"
  "tab_inv (s\<lparr>current_search_type := a5\<rparr>) = tab_inv s"
  "tab_inv (s\<lparr>combo_root_folder := a6\<rparr>) = tab_inv s"
  "tab_inv (s\<lparr>combo_quality_profile := a7\<rparr>) = tab_inv s"
  "tab_inv (s\<lparr>search_input := a8\<rparr>) = tab_inv s"
  "tab_inv (s\<lparr>workers := a9\<rparr>) = tab_inv s"
  by (rule tab_inv_cong; simp)+

lemma tab_inv_all:
  "tab_inv s \<longleftrightarrow>
     (\<forall>a. map th_id (outstanding a s) = (case getattr s a of None \<Rightarrow> [] | Some i \<Rightarrow> [i]))
     \<and> (\<forall>t \<in> set (threads s). th_id t < next_thread s)
     \<and> distinct (map th_id (threads s))"
proof -
  have "(\<forall>a. P a) \<longleftrightarrow> list_all P all_attrs" for P
  proof
    assume "list_all P all_attrs"
    then show "\<forall>a. P a"
    proof (intro allI)
      fix a assume "list_all P all_attrs" then show "P a" by (cases a) (simp_all add: all_attrs_def)
    qed
  qed (simp add: list_all_iff)
  then show ?thesis by (simp add: tab_inv_def list_all_iff)
qed

lemma tab_inv_start_worker: "tab_inv s \<Longrightarrow> tab_inv (start_worker a t sl s)"
  by (cases a)
    (auto simp: tab_inv_def all_attrs_def outstanding_def start_worker_def emit_def list_all_iff
      split: option.splits)

lemma find_th_id: "find (\<lambda>t. th_id t = i) ts = Some t \<Longrightarrow> t \<in> set ts \<and> th_id t = i"
  by (induction ts) (auto split: if_splits)

lemma getattr_setattr [simp]: "getattr (setattr s b v) a = (if a = b then v else getattr s a)"
  by (cases a; cases b; simp)

lemma thr_setattr [simp]:
  "threads (setattr s b v) = threads s" "next_thread (setattr s b v) = next_thread s"
  by (cases b; simp)+

lemma getattr_threads_upd [simp]: "getattr (s\<lparr>threads := ts\<rparr>) a = getattr s a"
  by (cases a; simp)

lemma ids_filter_swap:
  "map th_id (filter (\<lambda>t. th_attr t = a) (filter (\<lambda>u. th_id u \<noteq> i) ts))
     = filter (\<lambda>j. j \<noteq> i) (map th_id (filter (\<lambda>t. th_attr t = a) ts))"
  by (induction ts) auto

lemma tab_inv_thread_finished:
  assumes "tab_inv s" shows "tab_inv (thread_finished i s)"
proof (cases "find (\<lambda>t. th_id t = i) (threads s)")
  case None
  then show ?thesis using assms by (simp add: thread_finished_def)
next
  case (Some t)
  then have t: "t \<in> set (threads s)" "th_id t = i" using find_th_id by blast+
  from assms have A: "\<And>a. map th_id (outstanding a s) = (case getattr s a of None \<Rightarrow> [] | Some i \<Rightarrow> [i])"
    and B: "\<forall>t \<in> set (threads s). th_id t < next_thread s"
    and C: "distinct (map th_id (threads s))"
    by (simp_all add: tab_inv_all)
  let ?s' = "thread_finished i s"
  have s': "?s' = (setattr s (th_attr t) None)\<lparr>threads := filter (\<lambda>u. th_id u \<noteq> i) (threads s)\<rparr>"
    using Some by (simp add: thread_finished_def)
  have own: "getattr s (th_attr t) = Some i"
  proof -
    have "i \<in> set (map th_id (outstanding (th_attr t) s))"
      using t by (force simp: outstanding_def)
    then show ?thesis using A[of "th_attr t"] by (auto split: option.splits)
  qed
  have other: "getattr s a \<noteq> Some i" if "a \<noteq> th_attr t" for a
  proof
    assume "getattr s a = Some i"
    then have "map th_id (outstanding a s) = [i]" using A[of a] by simp
    then have "i \<in> set (map th_id (outstanding a s))" by simp
    then obtain u where u: "u \<in> set (threads s)" "th_attr u = a" "th_id u = i"
      by (auto simp: outstanding_def)
    with t C have "u = t" by (auto simp: distinct_map inj_on_def)
    with u that show False by simp
  qed
  have "map th_id (outstanding a ?s') = (case getattr ?s' a of None \<Rightarrow> [] | Some i \<Rightarrow> [i])" for a
  proof -
    have "map th_id (outstanding a ?s') = filter (\<lambda>j. j \<noteq> i) (map th_id (outstanding a s))"
      unfolding s' outstanding_def by (simp del: filter_filter add: ids_filter_swap)
    also have "\<dots> = (case getattr ?s' a of None \<Rightarrow> [] | Some i \<Rightarrow> [i])"
      using A[of a] own other[of a] by (cases "a = th_attr t") (auto simp: s' split: option.splits)
    finally show ?thesis .
  qed
  moreover have "\<forall>u \<in> set (threads ?s'). th_id u < next_thread ?s'"
    using B by (simp add: s')
  moreover have "distinct (map th_id (threads ?s'))"
    using C by (simp add: s' distinct_map_filter)
  ultimately show ?thesis unfolding tab_inv_all by blast
qed

lemma tab_inv_process_next: "tab_inv s \<Longrightarrow> tab_inv (process_next_item_in_queue s)"
  unfolding process_next_item_in_queue_def run_add_worker_def run_search_worker_def
  by (auto split: list.splits intro!: tab_inv_start_worker)


lemma tab_inv_validate: "tab_inv (snd (validate_inputs t s)) = tab_inv s"
  by (simp add: validate_inputs_def)

lemma tab_inv_add_from_text: "tab_inv s \<Longrightarrow> tab_inv (add_from_text s)"
  using tab_inv_validate[of "strip (search_input s)" s]
  by (auto simp: add_from_text_def Let_def split: prod.splits bool.splits
      intro!: tab_inv_process_next)

lemma tab_inv_import_from_csv: "tab_inv s \<Longrightarrow> tab_inv (import_from_csv f c s)"
  using tab_inv_validate[of "''N/A''" s]
  by (auto simp: import_from_csv_def split: prod.splits bool.splits sum.splits
      intro!: tab_inv_process_next)

lemma tab_inv_start_search_and_add: "tab_inv s \<Longrightarrow> tab_inv (start_search_and_add t ty s)"
  using tab_inv_validate[of t s]
  by (auto simp: start_search_and_add_def split: prod.splits bool.splits option.splits
      intro!: tab_inv_process_next)

lemma tab_inv_on_add_request: "tab_inv s \<Longrightarrow> tab_inv (on_add_request n t ty s)"
  by (simp add: on_add_request_def tab_inv_start_search_and_add)

lemma tab_inv_on_item_selected: "tab_inv (on_item_selected c s) = tab_inv s"
  by (simp add: on_item_selected_def split: option.splits)

lemma tab_inv_foldl_selected:
  "tab_inv (foldl (\<lambda>st item. on_item_selected item st) s xs) = tab_inv s"
  by (induction xs arbitrary: s) (simp_all add: tab_inv_on_item_selected)

lemma tab_inv_search_finished_branch: "tab_inv (search_finished_branch r e d s) = tab_inv s"
  by (simp add: search_finished_branch_def tab_inv_on_item_selected tab_inv_foldl_selected Let_def
      split: option.splits list.splits dialog_answer.splits)

lemma tab_inv_search_finished_raised: "tab_inv (search_finished_raised r e s) = tab_inv s"
  by (simp add: search_finished_raised_def split: option.splits)

lemma tab_inv_add_finished_branch: "tab_inv (add_finished_branch r e s) = tab_inv s"
  by (simp add: add_finished_branch_def split: option.splits)

lemma tab_inv_on_status_finished: "tab_inv s \<Longrightarrow> tab_inv (on_status_finished r e s)"
  by (simp add: on_status_finished_def refresh_quality_profiles_def refresh_root_folders_def
      tab_inv_start_worker split: option.splits)

lemma tab_inv_step: "tab_inv s \<Longrightarrow> tab_inv (step e s)"
  by (cases e)
    (simp_all add: check_status_def refresh_root_folders_def refresh_quality_profiles_def
      tab_inv_start_worker tab_inv_add_from_text tab_inv_import_from_csv tab_inv_on_add_request
      on_search_type_changed_def tab_inv_on_status_finished on_root_folders_finished_def
      on_quality_profiles_finished_def on_search_finished_def on_add_finished_def
      tab_inv_search_finished_branch tab_inv_add_finished_branch tab_inv_process_next
      tab_inv_search_finished_raised tab_inv_thread_finished delivered_def split: option.splits)

lemma tab_inv_run_events: "tab_inv s \<Longrightarrow> tab_inv (run_events es s)"
  unfolding run_events_def by (induction es arbitrary: s) (simp_all add: tab_inv_step)

lemma tab_inv_init: "tab_inv (ArrTab_init n)" "tab_inv LidarrTab_init"
  by (simp_all add: tab_inv_def ArrTab_init_def LidarrTab_init_def all_attrs_def outstanding_def)

lemma tab_inv_outstanding: "tab_inv s \<Longrightarrow> length (outstanding a s) \<le> 1"
proof -
  assume "tab_inv s"
  then have "map th_id (outstanding a s) = (case getattr s a of None \<Rightarrow> [] | Some i \<Rightarrow> [i])"
    by (simp add: tab_inv_all)
  then have "length (map th_id (outstanding a s)) \<le> 1" by (simp split: option.splits)
  then show ?thesis by simp
qed

lemma threads_split:
  "length ts = length (filter (\<lambda>t. th_attr t = Status_thread) ts)
     + length (filter (\<lambda>t. th_attr t = Folders_thread) ts)
     + length (filter (\<lambda>t. th_attr t = Profiles_thread) ts)
     + length (filter (\<lambda>t. th_attr t = Search_thread) ts)"
proof (induction ts)
  case (Cons t ts)
  then show ?case by (cases "th_attr t") simp_all
qed simp

lemma tab_inv_threads: "tab_inv s \<Longrightarrow> length (threads s) \<le> 4"
  using tab_inv_outstanding[of s Status_thread] tab_inv_outstanding[of s Folders_thread]
    tab_inv_outstanding[of s Profiles_thread] tab_inv_outstanding[of s Search_thread]
    threads_split[of "threads s"]
  by (simp add: outstanding_def)

subsection \<open>Only the end of its thread clears the queue's flag\<close>







lemma search_thread_on_item_selected [simp]:
  "search_thread (on_item_selected c s) = search_thread s"
  by (simp add: on_item_selected_def emit_def split: option.splits)

lemma search_thread_foldl_selected [simp]:
  "search_thread (foldl (\<lambda>st item. on_item_selected item st) s xs) = search_thread s"
  by (induction xs arbitrary: s) simp_all

lemma search_thread_search_finished_branch [simp]:
  "search_thread (search_finished_branch r e d s) = search_thread s"
  by (simp add: search_finished_branch_def Let_def
      split: option.splits list.splits dialog_answer.splits)

lemma search_thread_search_finished_raised [simp]:
  "search_thread (search_finished_raised r e s) = search_thread s"
  by (simp add: search_finished_raised_def emit_def split: option.splits)

lemma search_thread_add_finished_branch [simp]:
  "search_thread (add_finished_branch r e s) = search_thread s"
  by (simp add: add_finished_branch_def split: option.splits)




subsection \<open>Queue operations run under the queue's flag\<close>

lemma task_inv_cong: "threads s' = threads s \<Longrightarrow> task_inv s' = task_inv s"
  by (simp add: task_inv_def)

lemma task_inv_emit [simp]: "task_inv (emit es s) = task_inv s"
  by (simp add: task_inv_def)

lemma task_inv_upd [simp]:
  "task_inv (s\<lparr>terms_to_add_queue := a1\<rparr>) = task_inv s"
  "task_inv (s\<lparr>items_to_add_queue := a2\<rparr>) = task_inv s"
  "task_inv (s\<lparr>terms_to_add_total_count := a3\<rparr>) = task_inv s"
  "task_inv (s\<lparr>current_search_term := a4\<rparr>) = task_inv s"
  "task_inv (s\<lparr>current_search_type := a5\<rparr>) = task_inv s"
  "task_inv (s\<lparr>combo_root_folder := a6\<rparr>) = task_inv s"
  "task_inv (s\<lparr>combo_quality_profile := a7\<rparr>) = task_inv s"
  "task_inv (s\<lparr>search_input := a8\<rparr>) = task_inv s"
  "task_inv (s\<lparr>workers := a9\<rparr>) = task_inv s"
  by (simp_all add: task_inv_def)

















lemma started_by_busy:
  "search_thread s \<noteq> None \<Longrightarrow> started_by process_next_item_in_queue s = []"
  by (simp add: started_by_def process_next_item_in_queue_def)

section \<open>The claims\<close>




lemma threads_start_worker_idle:
  "getattr s a = None \<Longrightarrow>
     threads (start_worker a t sl s)
       = threads s @ [\<lparr>th_id = next_thread s, th_attr = a, th_task = t, th_slot = sl\<rparr>]"
  by (cases a) (simp_all add: start_worker_def)

lemma process_next_add:
  assumes "search_thread s = None" "items_to_add_queue s = x # xs"
  shows "started_by process_next_item_in_queue s = [Task_add_item x]"
    "items_to_add_queue (process_next_item_in_queue s) = xs"
    "terms_to_add_queue (process_next_item_in_queue s) = terms_to_add_queue s"
  using assms
  by (simp_all add: process_next_item_in_queue_def run_add_worker_def started_by_def
      start_worker_def emit_def)

lemma process_next_search:
  assumes "search_thread s = None" "items_to_add_queue s = []" "terms_to_add_queue s = t # ts"
  shows "started_by process_next_item_in_queue s = [Task_search_item t (current_search_type s)]"
    "terms_to_add_queue (process_next_item_in_queue s) = ts"
    "items_to_add_queue (process_next_item_in_queue s) = []"
  using assms
  by (simp_all add: process_next_item_in_queue_def run_search_worker_def started_by_def
      start_worker_def emit_def)

lemma process_next_search_only:
  assumes "Task_search_item t ty \<in> set (started_by process_next_item_in_queue s)"
  shows "items_to_add_queue s = []"
proof (rule ccontr)
  assume "items_to_add_queue s \<noteq> []"
  then obtain x xs where x: "items_to_add_queue s = x # xs" by (cases "items_to_add_queue s") auto
  show False
  proof (cases "search_thread s")
    case None
    with x assms show False by (simp add: process_next_add)
  next
    case (Some i)
    with assms show False by (simp add: started_by_busy)
  qed
qed

text \<open>
  The claim C2 as written fails in a state with an operation outstanding: the add item
  at the head of the queue is not dispatched.
\<close>

theorem queue_priority_counterexample:
  "search_thread queued_tab = Some 3
   \<and> items_to_add_queue queued_tab = [pending_of sample_folder sample_profile ''item'' dune]
   \<and> started_by process_next_item_in_queue queued_tab = []
   \<and> items_to_add_queue (process_next_item_in_queue queued_tab) = items_to_add_queue queued_tab"
  by code_simp

text \<open>
  C2, amended. In every state with no operation outstanding and a non-empty add-items
  queue, \<open>process_next_item_in_queue\<close> dispatches the head of the add-items queue and
  leaves the search terms alone; with no operation outstanding and no add item, it
  dispatches the head of the search terms. In every state, a search is dispatched only
  if the add-items queue is empty.
\<close>

theorem queue_priority:
  "(search_thread s = None \<and> items_to_add_queue s = x # xs \<longrightarrow>
      started_by process_next_item_in_queue s = [Task_add_item x]
      \<and> items_to_add_queue (process_next_item_in_queue s) = xs
      \<and> terms_to_add_queue (process_next_item_in_queue s) = terms_to_add_queue s)
   \<and> (search_thread s = None \<and> items_to_add_queue s = [] \<and> terms_to_add_queue s = t # ts \<longrightarrow>
      started_by process_next_item_in_queue s = [Task_search_item t (current_search_type s)]
      \<and> terms_to_add_queue (process_next_item_in_queue s) = ts)
   \<and> ((\<exists>t' ty. Task_search_item t' ty \<in> set (started_by process_next_item_in_queue s)) \<longrightarrow>
      items_to_add_queue s = [])"
proof -
  have A: "started_by process_next_item_in_queue s = [Task_add_item x]
      \<and> items_to_add_queue (process_next_item_in_queue s) = xs
      \<and> terms_to_add_queue (process_next_item_in_queue s) = terms_to_add_queue s"
    if "search_thread s = None \<and> items_to_add_queue s = x # xs"
    using that process_next_add[of s x xs] by simp
  have B: "started_by process_next_item_in_queue s = [Task_search_item t (current_search_type s)]
      \<and> terms_to_add_queue (process_next_item_in_queue s) = ts"
    if "search_thread s = None \<and> items_to_add_queue s = [] \<and> terms_to_add_queue s = t # ts"
    using that process_next_search[of s t ts] by simp
  have C: "items_to_add_queue s = []"
    if "\<exists>t' ty. Task_search_item t' ty \<in> set (started_by process_next_item_in_queue s)"
    using that process_next_search_only by blast
  from A B C show ?thesis by blast
qed

lemma both_tab_facts:
  "search_thread both_tab = None"
  "items_to_add_queue both_tab = [pending_of sample_folder sample_profile ''item'' dune]"
  "terms_to_add_queue both_tab = [''Arrival'']"
  "search_thread terms_tab = None"
  "items_to_add_queue terms_tab = []"
  "terms_to_add_queue terms_tab = [''Arrival'']"
  "current_search_type terms_tab = ''item''"
  by code_simp+

theorem queue_priority_witness:
  "search_thread both_tab = None
   \<and> items_to_add_queue both_tab = [pending_of sample_folder sample_profile ''item'' dune]
   \<and> terms_to_add_queue both_tab = [''Arrival'']
   \<and> started_by process_next_item_in_queue both_tab
       = [Task_add_item (pending_of sample_folder sample_profile ''item'' dune)]
   \<and> items_to_add_queue (process_next_item_in_queue both_tab) = []
   \<and> terms_to_add_queue (process_next_item_in_queue both_tab) = [''Arrival'']
   \<and> started_by process_next_item_in_queue terms_tab = [Task_search_item ''Arrival'' ''item'']
   \<and> terms_to_add_queue (process_next_item_in_queue terms_tab) = []
   \<and> items_to_add_queue terms_tab = []"
proof -
  let ?p = "pending_of sample_folder sample_profile ''item'' dune"
  note f = both_tab_facts
  have a: "search_thread both_tab = None \<and> items_to_add_queue both_tab = ?p # []"
    using f(1,2) by (intro conjI)
  have 1: "started_by process_next_item_in_queue both_tab = [Task_add_item ?p]
      \<and> items_to_add_queue (process_next_item_in_queue both_tab) = []
      \<and> terms_to_add_queue (process_next_item_in_queue both_tab) = terms_to_add_queue both_tab"
    by (rule mp[OF conjunct1[OF queue_priority[where s = both_tab and x = ?p and xs = "[]"
        and t = "''Arrival''" and ts = "[]"]] a])
  have b: "search_thread terms_tab = None \<and> items_to_add_queue terms_tab = []
      \<and> terms_to_add_queue terms_tab = ''Arrival'' # []"
    using f(4,5,6) by (intro conjI)
  have 2: "started_by process_next_item_in_queue terms_tab
        = [Task_search_item ''Arrival'' (current_search_type terms_tab)]
      \<and> terms_to_add_queue (process_next_item_in_queue terms_tab) = []"
    by (rule mp[OF conjunct1[OF conjunct2[OF queue_priority[where s = terms_tab and x = ?p
        and xs = "[]" and t = "''Arrival''" and ts = "[]"]]] b])
  from 1 2 show ?thesis
    by (simp only: f simp_thms)
qed

text \<open>
  The claim C9 as written fails: after a status check that found the service up, the
  refresh of the root folders and the refresh of the quality profiles are outstanding
  together.
\<close>

theorem worker_bound_counterexample:
  "map th_task (threads (run_events
      [Ev_check_status, Ev_status_finished 0 (Some status_up) [], Ev_thread_finished 0]
      (ArrTab_init ''radarr'')))
     = [Task_get_root_folders, Task_get_quality_profiles]
   \<and> \<not> length (threads (run_events
      [Ev_check_status, Ev_status_finished 0 (Some status_up) [], Ev_thread_finished 0]
      (ArrTab_init ''radarr''))) \<le> 1"
  by code_simp

text \<open>
  C9, amended. In every state a tab reaches from its construction, at most one worker
  is outstanding under each of the four thread attributes (status, root folders,
  quality profiles, and the one shared by resolve and submit), hence at most four in
  the tab.
\<close>

theorem worker_bound_per_attribute:
  "length (outstanding a (run_events es (ArrTab_init name))) \<le> 1
   \<and> length (threads (run_events es (ArrTab_init name))) \<le> 4
   \<and> length (outstanding a (run_events es LidarrTab_init)) \<le> 1
   \<and> length (threads (run_events es LidarrTab_init)) \<le> 4"
  using tab_inv_outstanding[OF tab_inv_run_events[OF tab_inv_init(1)], of a es name]
    tab_inv_threads[OF tab_inv_run_events[OF tab_inv_init(1)], of es name]
    tab_inv_outstanding[OF tab_inv_run_events[OF tab_inv_init(2)], of a es]
    tab_inv_threads[OF tab_inv_run_events[OF tab_inv_init(2)], of es]
  by simp

lemma four_workers:
  "map th_attr (threads (run_events
      [Ev_add_from_text ''Dune'', Ev_check_status, Ev_status_finished 4 (Some status_up) []]
      ready_tab))
     = [Search_thread, Status_thread, Folders_thread, Profiles_thread]"
  by code_simp

theorem worker_bound_per_attribute_witness:
  "length (threads (run_events
      (startup_events @ [Ev_add_from_text ''Dune'', Ev_check_status,
                         Ev_status_finished 4 (Some status_up) []])
      (ArrTab_init ''radarr''))) = 4
   \<and> length (outstanding Search_thread (run_events
      (startup_events @ [Ev_add_from_text ''Dune'', Ev_check_status,
                         Ev_status_finished 4 (Some status_up) []])
      (ArrTab_init ''radarr''))) \<le> 1"
proof -
  let ?es = "startup_events @ [Ev_add_from_text ''Dune'', Ev_check_status,
                         Ev_status_finished 4 (Some status_up) []]"
  have "run_events ?es (ArrTab_init ''radarr'')
      = run_events [Ev_add_from_text ''Dune'', Ev_check_status,
                         Ev_status_finished 4 (Some status_up) []] ready_tab"
    by (simp add: run_events_def ready_tab_def)
  moreover have "length (map th_attr (threads (run_events [Ev_add_from_text ''Dune'', Ev_check_status,
                         Ev_status_finished 4 (Some status_up) []] ready_tab))) = 4"
    unfolding four_workers by simp
  ultimately have "length (threads (run_events ?es (ArrTab_init ''radarr''))) = 4"
    by (simp only: length_map)
  then show ?thesis
    using worker_bound_per_attribute[of Search_thread ?es "''radarr''"] by simp
qed

text \<open>
  C10, the result discipline of the worker. \<open>run\<close> lets no exception out. A task
  that returns makes it emit \<open>finished\<close> once, with the result and the empty error
  string; a task that raises makes it emit \<open>finished\<close> once, with \<open>None\<close> and the text
  of the exception; after \<open>stop()\<close> it emits no \<open>finished\<close> at all. So what a slot
  receives has an empty error string or a \<open>None\<close> result with a non-empty one, and
  never a result other than \<open>None\<close> together with a non-empty error string.
\<close>

theorem worker_result_discipline:
  "snd (run w outcome) = None
   \<and> (is_running w \<longrightarrow> finished_signals (fst (run w (Returns v))) = [(v, [])])
   \<and> (is_running w \<longrightarrow> finished_signals (fst (run w (Raises e))) = [(JNull, exc_str e)])
   \<and> finished_signals (fst (run (stop w) outcome)) = []
   \<and> list_all (\<lambda>(r, err). (err = [] \<or> (r = JNull \<and> err \<noteq> [])) \<and> \<not> (r \<noteq> JNull \<and> err \<noteq> []))
        (finished_signals (fst (run w outcome)))"
  by (cases outcome) (simp_all add: run_def stop_def)

theorem worker_result_discipline_witness:
  "is_running ApiWorker_init
   \<and> snd (run ApiWorker_init (Raises (PyExc HTTPError ''404 Client Error''))) = None
   \<and> finished_signals (fst (run ApiWorker_init (Returns (JList [JObj dune])))) = [(JList [JObj dune], [])]
   \<and> finished_signals (fst (run ApiWorker_init (Raises (PyExc HTTPError ''404 Client Error''))))
       = [(JNull, ''404 Client Error'')]
   \<and> finished_signals (fst (run (stop ApiWorker_init) (Raises (PyExc HTTPError ''404 Client Error'')))) = []"
proof -
  have r: "is_running ApiWorker_init" by (simp add: ApiWorker_init_def)
  note t = worker_result_discipline[where w = ApiWorker_init
      and outcome = "Raises (PyExc HTTPError ''404 Client Error'')"
      and v = "JList [JObj dune]" and e = "PyExc HTTPError ''404 Client Error''"]
  have 1: "snd (run ApiWorker_init (Raises (PyExc HTTPError ''404 Client Error''))) = None"
    by (rule conjunct1[OF t])
  have 2: "finished_signals (fst (run ApiWorker_init (Returns (JList [JObj dune]))))
      = [(JList [JObj dune], [])]"
    by (rule mp[OF conjunct1[OF conjunct2[OF t]] r])
  have 3: "finished_signals (fst (run ApiWorker_init (Raises (PyExc HTTPError ''404 Client Error''))))
       = [(JNull, exc_str (PyExc HTTPError ''404 Client Error''))]"
    by (rule mp[OF conjunct1[OF conjunct2[OF conjunct2[OF t]]] r])
  have 4: "finished_signals (fst (run (stop ApiWorker_init) (Raises (PyExc HTTPError ''404 Client Error'')))) = []"
    by (rule conjunct1[OF conjunct2[OF conjunct2[OF conjunct2[OF t]]]])
  from r 1 2 3 4 show ?thesis by (simp only: py_exception.sel simp_thms)
qed

lemma branch_queues [simp]:
  "items_to_add_queue (add_finished_branch result err s) = items_to_add_queue s"
  "terms_to_add_queue (add_finished_branch result err s) = terms_to_add_queue s"
  "threads (add_finished_branch result err s) = threads s"
  by (simp_all add: add_finished_branch_def split: option.splits)

lemma error_boxes_emit:
  "error_boxes (emit es s) = error_boxes s
     + length (filter (\<lambda>e. case e of MessageBox BoxCritical _ _ \<Rightarrow> True | _ \<Rightarrow> False) es)"
  by (simp add: error_boxes_def emit_def)

text \<open>
  The two kinds of failed add. When an add fails (the error string is not empty or the
  result is \<open>None\<close>) and the error contains \<open>400\<close> and, in lower case, \<open>already\<close> or
  \<open>exist\<close>, the slot logs one warning and opens no error box; on every other failure it
  logs the error and opens one. Either way the queues and the threads are as before,
  so the item, taken from the queue when it was dispatched, is not queued again, and
  the last statement of the slot is the call of \<open>process_next_item_in_queue\<close>.
\<close>

lemma duplicate_add_handling:
  "(err \<noteq> [] \<or> result = None) \<longrightarrow>
     (if sublist ''400'' err \<and> (sublist ''already'' (lower err) \<or> sublist ''exist'' (lower err))
      then add_finished_branch result err s
             = emit [Log LvWarning ''Item already exists in {service}. Skipping.''
                       [JStr (service_name s)]] s
           \<and> error_boxes (add_finished_branch result err s) = error_boxes s
      else add_finished_branch result err s
             = emit [Log LvError ''Failed to add item: {error}'' [JStr err],
                     MessageBox BoxCritical ''Add Error'' [JStr err]] s
           \<and> error_boxes (add_finished_branch result err s) = error_boxes s + 1)
     \<and> items_to_add_queue (add_finished_branch result err s) = items_to_add_queue s
     \<and> terms_to_add_queue (add_finished_branch result err s) = terms_to_add_queue s
     \<and> threads (add_finished_branch result err s) = threads s
     \<and> on_add_finished result err s
          = process_next_item_in_queue (add_finished_branch result err s)"
  by (auto simp: add_finished_branch_def is_duplicate_error_def on_add_finished_def
      error_boxes_emit)

lemma dup_facts:
  "sublist ''400'' ''400 Client Error: This movie has already been added''"
  "sublist ''already'' (lower ''400 Client Error: This movie has already been added'')"
  "\<not> sublist ''400'' ''500 Server Error''"
  by code_simp+

lemma duplicate_add_handling_sample:
  "add_finished_branch None ''400 Client Error: This movie has already been added'' adding_tab
     = emit [Log LvWarning ''Item already exists in {service}. Skipping.''
               [JStr (service_name adding_tab)]] adding_tab
   \<and> error_boxes (add_finished_branch None ''400 Client Error: This movie has already been added''
        adding_tab) = error_boxes adding_tab
   \<and> add_finished_branch None ''500 Server Error'' adding_tab
     = emit [Log LvError ''Failed to add item: {error}'' [JStr ''500 Server Error''],
             MessageBox BoxCritical ''Add Error'' [JStr ''500 Server Error'']] adding_tab
   \<and> error_boxes (add_finished_branch None ''500 Server Error'' adding_tab)
       = error_boxes adding_tab + 1
   \<and> on_add_finished None ''500 Server Error'' adding_tab
       = process_next_item_in_queue (add_finished_branch None ''500 Server Error'' adding_tab)"
proof -
  let ?d = "''400 Client Error: This movie has already been added''"
  have p: "?d \<noteq> [] \<or> (None :: dict option) = None" "''500 Server Error'' \<noteq> [] \<or> (None :: dict option) = None"
    by simp_all
  note a = mp[OF duplicate_add_handling[where err = ?d and result = None and s = adding_tab] p(1)]
  note b = mp[OF duplicate_add_handling[where err = "''500 Server Error''" and result = None
        and s = adding_tab] p(2)]
  have c: "(sublist ''400'' ?d \<and> (sublist ''already'' (lower ?d) \<or> sublist ''exist'' (lower ?d))) = True"
    "(sublist ''400'' ''500 Server Error'' \<and> (sublist ''already'' (lower ''500 Server Error'')
        \<or> sublist ''exist'' (lower ''500 Server Error''))) = False"
    using dup_facts by (simp_all only: simp_thms)
  note a' = a[unfolded c if_True]
  note b' = b[unfolded c if_False]
  show ?thesis
    by (intro conjI)
      (rule conjunct1[OF conjunct1[OF a']] conjunct2[OF conjunct1[OF a']]
        conjunct1[OF conjunct1[OF b']] conjunct2[OF conjunct1[OF b']]
        conjunct2[OF conjunct2[OF conjunct2[OF conjunct2[OF b']]]])+
qed

lemma error_boxes_delivered [simp]: "error_boxes (delivered i s) = error_boxes s"
  by (simp add: error_boxes_def delivered_def)

text \<open>
  C6, duplicate adds: the queue stalls. The slot of an add is connected before
  \<open>thread.quit\<close>, and the flag \<open>search_thread\<close> is cleared by the end of the thread only;
  so when the completion of an add reaches its slot and the slot opens no dialog, the
  flag is still set. On a duplicate the slot logs its warning and opens no error box,
  as the claim says; but its closing call of \<open>process_next_item_in_queue\<close> then finds
  the flag set, logs that the queue is already processing and starts nothing, and
  both queues stay as they are. The engine does not advance, and no later event calls
  it again.
\<close>

theorem duplicate_add_stalls:
  "connected i On_add_finished s \<and> search_thread s \<noteq> None
   \<and> sublist ''400'' err \<and> (sublist ''already'' (lower err) \<or> sublist ''exist'' (lower err)) \<longrightarrow>
     step (Ev_add_finished i result err) s
       = emit [Log LvWarning ''Item already exists in {service}. Skipping.'' [JStr (service_name s)],
               Log LvWarning ''Search/add queue is already processing.'' []] (delivered i s)
     \<and> threads (step (Ev_add_finished i result err) s) = threads s
     \<and> terms_to_add_queue (step (Ev_add_finished i result err) s) = terms_to_add_queue s
     \<and> items_to_add_queue (step (Ev_add_finished i result err) s) = items_to_add_queue s
     \<and> error_boxes (step (Ev_add_finished i result err) s) = error_boxes s"
proof (intro impI)
  assume a: "connected i On_add_finished s \<and> search_thread s \<noteq> None
   \<and> sublist ''400'' err \<and> (sublist ''already'' (lower err) \<or> sublist ''exist'' (lower err))"
  then have ne: "err \<noteq> []" by auto
  have dup: "is_duplicate_error err" using a by (simp add: is_duplicate_error_def)
  have eq: "step (Ev_add_finished i result err) s
       = emit [Log LvWarning ''Item already exists in {service}. Skipping.'' [JStr (service_name s)],
               Log LvWarning ''Search/add queue is already processing.'' []] (delivered i s)"
    using a ne dup
    by (simp add: on_add_finished_def add_finished_branch_def process_next_item_in_queue_def
        emit_def delivered_def)
  show "step (Ev_add_finished i result err) s
       = emit [Log LvWarning ''Item already exists in {service}. Skipping.'' [JStr (service_name s)],
               Log LvWarning ''Search/add queue is already processing.'' []] (delivered i s)
     \<and> threads (step (Ev_add_finished i result err) s) = threads s
     \<and> terms_to_add_queue (step (Ev_add_finished i result err) s) = terms_to_add_queue s
     \<and> items_to_add_queue (step (Ev_add_finished i result err) s) = items_to_add_queue s
     \<and> error_boxes (step (Ev_add_finished i result err) s) = error_boxes s"
    unfolding eq by (simp add: error_boxes_emit) (simp add: emit_def delivered_def)
qed

lemma stalled_facts:
  "connected 4 On_add_finished submitting_tab \<and> search_thread submitting_tab \<noteq> None
   \<and> sublist ''400'' duplicate_error
   \<and> (sublist ''already'' (lower duplicate_error) \<or> sublist ''exist'' (lower duplicate_error))"
  "threads submitting_tab
     = [\<lparr>th_id = 4, th_attr = Search_thread,
         th_task = Task_add_item (pending_of sample_folder sample_profile ''item'' dune_1984),
         th_slot = On_add_finished\<rparr>]"
  "terms_to_add_queue submitting_tab = [''Arrival'']"
  "items_to_add_queue submitting_tab = []"
  "service_name submitting_tab = ''radarr''"
  "stalled_tab = step (Ev_thread_finished 4) (step (Ev_add_finished 4 None duplicate_error) submitting_tab)"
  "threads stalled_tab = []"
  "search_thread stalled_tab = None"
  "terms_to_add_queue stalled_tab = [''Arrival'']"
  "items_to_add_queue stalled_tab = []"
  "error_boxes refused_tab = error_boxes submitting_tab + 1"
  "terms_to_add_queue refused_tab = []"
  "map th_task (threads refused_tab) = [Task_search_item ''Arrival'' ''item'']"
  by code_simp+

text \<open>
  The batch of \<open>Dune\<close> and \<open>Arrival\<close>, whose add of \<open>Dune\<close> is refused as a duplicate: after
  the slot and the end of the thread, \<open>Arrival\<close> still waits and nothing is in flight.
  Refused for another reason, the error box lets the thread end before the slot
  goes on, and the search for \<open>Arrival\<close> is started.
\<close>

theorem duplicate_add_stalls_witness:
  "connected 4 On_add_finished submitting_tab
   \<and> search_thread submitting_tab \<noteq> None
   \<and> terms_to_add_queue submitting_tab = [''Arrival'']
   \<and> step (Ev_add_finished 4 None duplicate_error) submitting_tab
       = emit [Log LvWarning ''Item already exists in {service}. Skipping.''
                 [JStr (service_name submitting_tab)],
               Log LvWarning ''Search/add queue is already processing.'' []]
           (delivered 4 submitting_tab)
   \<and> threads (step (Ev_add_finished 4 None duplicate_error) submitting_tab) = threads submitting_tab
   \<and> error_boxes (step (Ev_add_finished 4 None duplicate_error) submitting_tab)
       = error_boxes submitting_tab
   \<and> stalled_tab
       = step (Ev_thread_finished 4) (step (Ev_add_finished 4 None duplicate_error) submitting_tab)
   \<and> terms_to_add_queue stalled_tab = [''Arrival'']
   \<and> items_to_add_queue stalled_tab = []
   \<and> threads stalled_tab = []
   \<and> search_thread stalled_tab = None
   \<and> error_boxes refused_tab = error_boxes submitting_tab + 1
   \<and> terms_to_add_queue refused_tab = []
   \<and> map th_task (threads refused_tab) = [Task_search_item ''Arrival'' ''item'']"
proof -
  note t = mp[OF duplicate_add_stalls[where i = 4 and s = submitting_tab
        and err = duplicate_error and result = None] stalled_facts(1)]
  show ?thesis
    apply (intro conjI)
                 apply (rule conjunct1[OF stalled_facts(1)])
                apply (rule conjunct1[OF conjunct2[OF stalled_facts(1)]])
               apply (rule stalled_facts(3))
              apply (rule conjunct1[OF t])
             apply (rule conjunct1[OF conjunct2[OF t]])
            apply (rule conjunct2[OF conjunct2[OF conjunct2[OF conjunct2[OF t]]]])
           apply (rule stalled_facts(6))
          apply (rule stalled_facts(9))
         apply (rule stalled_facts(10))
        apply (rule stalled_facts(7))
       apply (rule stalled_facts(8))
      apply (rule stalled_facts(11))
     apply (rule stalled_facts(12))
    apply (rule stalled_facts(13))
    done
qed

text \<open>
  C7, albums are rejected. For a PendingAddItem whose search type is \<open>album\<close>,
  Lidarr's \<open>_build_add_payload\<close> raises the usage error; \<open>_task_add_item\<close> issues no
  request whatever the environment, and ends in a \<open>ValueError\<close>, which is that usage
  error whenever the service is configured.
\<close>

theorem album_rejected:
  "search_type item_data = ''album'' \<longrightarrow>
     build_add_payload LidarrTab item_data
       = Inl (PyExc ValueError
           ''Adding albums directly is not supported by this tool. Please search for and add the artist.'')
     \<and> requests (fst (task_add_item ev LidarrTab name item_data)) = []
     \<and> (\<exists>msg. snd (task_add_item ev LidarrTab name item_data) = Inl (PyExc ValueError msg))
     \<and> (\<forall>cfg. get_arr_base_url ev name = Inr cfg \<longrightarrow>
          task_add_item ev LidarrTab name item_data
            = ([], Inl (PyExc ValueError
                ''Adding albums directly is not supported by this tool. Please search for and add the artist.'')))"
  by (auto simp: task_add_item_def get_arr_base_url_def split: option.splits sum.splits prod.splits)

lemma album_facts:
  "search_type album_item = ''album''"
  "get_arr_base_url sample_env ''lidarr'' = Inr (''http://host:7878'', ''secret'')"
  by code_simp+

theorem album_rejected_witness:
  "search_type album_item = ''album''
   \<and> get_arr_base_url sample_env ''lidarr'' = Inr (''http://host:7878'', ''secret'')
   \<and> requests (fst (task_add_item sample_env LidarrTab ''lidarr'' album_item)) = []
   \<and> task_add_item sample_env LidarrTab ''lidarr'' album_item
       = ([], Inl (PyExc ValueError
           ''Adding albums directly is not supported by this tool. Please search for and add the artist.''))"
proof -
  note t = mp[OF album_rejected[where item_data = album_item and ev = sample_env
        and name = "''lidarr''"] album_facts(1)]
  have 1: "requests (fst (task_add_item sample_env LidarrTab ''lidarr'' album_item)) = []"
    by (rule conjunct1[OF conjunct2[OF t]])
  have 2: "task_add_item sample_env LidarrTab ''lidarr'' album_item
       = ([], Inl (PyExc ValueError
           ''Adding albums directly is not supported by this tool. Please search for and add the artist.''))"
    by (rule mp[OF spec[OF conjunct2[OF conjunct2[OF conjunct2[OF t]]]] album_facts(2)])
  from album_facts 1 2 show ?thesis by (intro conjI)
qed


lemma choosers_items_upd [simp]: "choosers (s\<lparr>items_to_add_queue := q\<rparr>) = choosers s"
  by (simp add: choosers_def)













lemma validate_inputs_ok:
  assumes "count (combo_root_folder s) \<noteq> 0" "count (combo_quality_profile s) \<noteq> 0"
    "t \<noteq> []"
  shows "validate_inputs t s = (True, s\<lparr>terms_to_add_queue := [], items_to_add_queue := []\<rparr>)"
  using assms by (simp add: validate_inputs_def)

lemma validate_inputs_fail:
  assumes "count (combo_root_folder s) = 0 \<or> count (combo_quality_profile s) = 0" "t \<noteq> []"
  shows "\<exists>title. validate_inputs t s = (False, emit [MessageBox BoxWarning title []] s)"
  using assms by (auto simp: validate_inputs_def)

lemma count_emit [simp]:
  "combo_root_folder (emit es s) = combo_root_folder s"
  "combo_quality_profile (emit es s) = combo_quality_profile s"
  by (simp_all add: emit_def)

text \<open>
  The claim C5 as written fails: with a root folder and a quality profile selected,
  entering a term drops the term that was waiting, and drops the add item that was
  waiting.
\<close>

theorem enqueue_replaces_counterexample:
  "count (combo_root_folder batch_tab) = 1
   \<and> count (combo_quality_profile batch_tab) = 1
   \<and> terms_to_add_queue batch_tab = [''Arrival'']
   \<and> terms_to_add_queue (step (Ev_add_from_text ''Tenet'') batch_tab) = [''Tenet'']
   \<and> items_to_add_queue queued_tab = [pending_of sample_folder sample_profile ''item'' dune]
   \<and> items_to_add_queue (step (Ev_add_from_text ''Tenet'') queued_tab) = []"
  by code_simp

text \<open>
  C5, amended. With a root folder and a quality profile present, entering a text term,
  importing CSV rows or an add request empties the add-items queue, replaces the
  pending search terms by the new ones, sets the total to their number and calls
  \<open>process_next_item_in_queue\<close>; an add request also makes its search type the current
  one, unless it is empty. With a root folder or a quality profile missing, the only
  thing that happens is a warning box, which leaves both queues and the threads as
  they were. An add request is a call of \<open>start_search_and_add\<close> with its search type,
  after one log record, when its service name is the tab's but for the case of the
  letters, and nothing otherwise.
\<close>

theorem enqueue_replaces:
  "(count (combo_root_folder s) \<noteq> 0 \<and> count (combo_quality_profile s) \<noteq> 0 \<longrightarrow>
      (strip (search_input s) \<noteq> [] \<longrightarrow>
         add_from_text s
           = process_next_item_in_queue
               (s\<lparr>items_to_add_queue := [], terms_to_add_queue := [strip (search_input s)],
                   terms_to_add_total_count := 1, search_input := []\<rparr>))
      \<and> (file_path \<noteq> [] \<and> csv_terms rows \<noteq> [] \<longrightarrow>
         import_from_csv file_path (Inr rows) s
           = process_next_item_in_queue
               (emit [Log LvInfo ''Loaded {n} terms from CSV. Starting batch add...''
                        [JInt (int (length (csv_terms rows)))]]
                  (s\<lparr>items_to_add_queue := [], terms_to_add_queue := csv_terms rows,
                      terms_to_add_total_count := length (csv_terms rows)\<rparr>)))
      \<and> (t \<noteq> [] \<and> (stype = None \<or> stype = Some []) \<longrightarrow>
         start_search_and_add t stype s
           = process_next_item_in_queue
               (s\<lparr>items_to_add_queue := [], terms_to_add_queue := [t],
                   terms_to_add_total_count := 1\<rparr>))
      \<and> (t \<noteq> [] \<and> ty \<noteq> [] \<longrightarrow>
         start_search_and_add t (Some ty) s
           = process_next_item_in_queue
               (s\<lparr>items_to_add_queue := [], current_search_type := ty,
                   terms_to_add_queue := [t], terms_to_add_total_count := 1\<rparr>)))
   \<and> (count (combo_root_folder s) = 0 \<or> count (combo_quality_profile s) = 0 \<longrightarrow>
      (strip (search_input s) \<noteq> [] \<longrightarrow>
         (\<exists>title. add_from_text s = emit [MessageBox BoxWarning title []] s))
      \<and> (file_path \<noteq> [] \<longrightarrow>
         (\<exists>title. import_from_csv file_path contents s = emit [MessageBox BoxWarning title []] s))
      \<and> (t \<noteq> [] \<longrightarrow>
         (\<exists>title. start_search_and_add t stype s = emit [MessageBox BoxWarning title []] s)))
   \<and> (lower name = lower (service_name s) \<longrightarrow>
        on_add_request name t ty s
          = start_search_and_add t (Some ty)
              (emit [Log LvInfo ''{service} tab handling event bus request for {term}''
                       [JStr (service_name s), JStr t]] s))
   \<and> (lower name \<noteq> lower (service_name s) \<longrightarrow> on_add_request name t ty s = s)
   \<and> count (combo_root_folder (emit es s)) = count (combo_root_folder s)
   \<and> count (combo_quality_profile (emit es s)) = count (combo_quality_profile s)
   \<and> terms_to_add_queue (emit es s) = terms_to_add_queue s
   \<and> items_to_add_queue (emit es s) = items_to_add_queue s
   \<and> threads (emit es s) = threads s"
proof -
  have ok: "add_from_text s
           = process_next_item_in_queue
               (s\<lparr>items_to_add_queue := [], terms_to_add_queue := [strip (search_input s)],
                   terms_to_add_total_count := 1, search_input := []\<rparr>)"
    if "count (combo_root_folder s) \<noteq> 0 \<and> count (combo_quality_profile s) \<noteq> 0"
      "strip (search_input s) \<noteq> []"
    using that validate_inputs_ok[of s "strip (search_input s)"]
    by (simp add: add_from_text_def Let_def)
  have ok_csv: "import_from_csv file_path (Inr rows) s
           = process_next_item_in_queue
               (emit [Log LvInfo ''Loaded {n} terms from CSV. Starting batch add...''
                        [JInt (int (length (csv_terms rows)))]]
                  (s\<lparr>items_to_add_queue := [], terms_to_add_queue := csv_terms rows,
                      terms_to_add_total_count := length (csv_terms rows)\<rparr>))"
    if "count (combo_root_folder s) \<noteq> 0 \<and> count (combo_quality_profile s) \<noteq> 0"
      "file_path \<noteq> [] \<and> csv_terms rows \<noteq> []"
    using that validate_inputs_ok[of s "''N/A''"]
    by (simp add: import_from_csv_def)
  have ok_bus: "start_search_and_add t stype s
           = process_next_item_in_queue
               (s\<lparr>items_to_add_queue := [], terms_to_add_queue := [t],
                   terms_to_add_total_count := 1\<rparr>)"
    if "count (combo_root_folder s) \<noteq> 0 \<and> count (combo_quality_profile s) \<noteq> 0"
      "t \<noteq> [] \<and> (stype = None \<or> stype = Some [])"
    using that validate_inputs_ok[of s t]
    by (auto simp: start_search_and_add_def)
  have ok_typed: "start_search_and_add t (Some ty) s
           = process_next_item_in_queue
               (s\<lparr>items_to_add_queue := [], current_search_type := ty,
                   terms_to_add_queue := [t], terms_to_add_total_count := 1\<rparr>)"
    if "count (combo_root_folder s) \<noteq> 0 \<and> count (combo_quality_profile s) \<noteq> 0"
      "t \<noteq> [] \<and> ty \<noteq> []"
    using that validate_inputs_ok[of s t]
    by (simp add: start_search_and_add_def)
  have no: "\<exists>title. add_from_text s = emit [MessageBox BoxWarning title []] s"
    if "count (combo_root_folder s) = 0 \<or> count (combo_quality_profile s) = 0"
      "strip (search_input s) \<noteq> []"
    using validate_inputs_fail[OF that] by (auto simp: add_from_text_def Let_def)
  have no_csv: "\<exists>title. import_from_csv file_path contents s = emit [MessageBox BoxWarning title []] s"
    if "count (combo_root_folder s) = 0 \<or> count (combo_quality_profile s) = 0"
      "file_path \<noteq> []"
    using validate_inputs_fail[OF that(1), of "''N/A''"] that(2)
    by (auto simp: import_from_csv_def)
  have no_bus: "\<exists>title. start_search_and_add t stype s = emit [MessageBox BoxWarning title []] s"
    if "count (combo_root_folder s) = 0 \<or> count (combo_quality_profile s) = 0" "t \<noteq> []"
    using validate_inputs_fail[OF that] that(2) by (auto simp: start_search_and_add_def)
  have req: "on_add_request name t ty s
          = start_search_and_add t (Some ty)
              (emit [Log LvInfo ''{service} tab handling event bus request for {term}''
                       [JStr (service_name s), JStr t]] s)"
    if "lower name = lower (service_name s)"
    using that by (simp add: on_add_request_def)
  have other: "on_add_request name t ty s = s" if "lower name \<noteq> lower (service_name s)"
    using that by (simp add: on_add_request_def)
  show ?thesis
    apply (intro conjI impI)
                 apply (rule ok, assumption, assumption)
                apply (rule ok_csv, assumption, assumption)
               apply (rule ok_bus, assumption, assumption)
              apply (rule ok_typed, assumption, assumption)
             apply (rule no, assumption, assumption)
            apply (rule no_csv, assumption, assumption)
           apply (rule no_bus, assumption, assumption)
          apply (rule req, assumption)
         apply (rule other, assumption)
        apply (simp_all add: emit_def)
    done
qed

lemma enqueue_facts:
  "count (combo_root_folder (batch_tab\<lparr>search_input := '' Tenet ''\<rparr>)) \<noteq> 0
   \<and> count (combo_quality_profile (batch_tab\<lparr>search_input := '' Tenet ''\<rparr>)) \<noteq> 0"
  "strip (search_input (batch_tab\<lparr>search_input := '' Tenet ''\<rparr>)) \<noteq> []"
  "count (combo_root_folder (ArrTab_init ''radarr'')) = 0
   \<or> count (combo_quality_profile (ArrTab_init ''radarr'')) = 0"
  "''batch.csv'' \<noteq> []"
  "terms_to_add_queue (batch_tab\<lparr>search_input := '' Tenet ''\<rparr>) = [''Arrival'']"
  "terms_to_add_queue (add_from_text (batch_tab\<lparr>search_input := '' Tenet ''\<rparr>)) = [''Tenet'']"
  "terms_to_add_queue
     (import_from_csv ''batch.csv'' (Inr [[''title''], [''Interstellar''], [''Arrival'']])
        (ArrTab_init ''radarr'')) = []"
  "count (combo_root_folder batch_tab) \<noteq> 0 \<and> count (combo_quality_profile batch_tab) \<noteq> 0"
  "''Tenet'' \<noteq> [] \<and> ''movie'' \<noteq> []"
  "lower ''Radarr'' = lower (service_name batch_tab)"
  "terms_to_add_queue (on_add_request ''Radarr'' ''Tenet'' ''movie'' batch_tab) = [''Tenet'']"
  "current_search_type (on_add_request ''Radarr'' ''Tenet'' ''movie'' batch_tab) = ''movie''"
  by code_simp+

theorem enqueue_replaces_witness:
  "(count (combo_root_folder (batch_tab\<lparr>search_input := '' Tenet ''\<rparr>)) \<noteq> 0
    \<and> count (combo_quality_profile (batch_tab\<lparr>search_input := '' Tenet ''\<rparr>)) \<noteq> 0)
   \<and> strip (search_input (batch_tab\<lparr>search_input := '' Tenet ''\<rparr>)) \<noteq> []
   \<and> add_from_text (batch_tab\<lparr>search_input := '' Tenet ''\<rparr>)
       = process_next_item_in_queue
           (batch_tab\<lparr>search_input := '' Tenet ''\<rparr>
              \<lparr>items_to_add_queue := [],
               terms_to_add_queue := [strip (search_input (batch_tab\<lparr>search_input := '' Tenet ''\<rparr>))],
               terms_to_add_total_count := 1, search_input := []\<rparr>)
   \<and> terms_to_add_queue (batch_tab\<lparr>search_input := '' Tenet ''\<rparr>) = [''Arrival'']
   \<and> terms_to_add_queue (add_from_text (batch_tab\<lparr>search_input := '' Tenet ''\<rparr>)) = [''Tenet'']
   \<and> (\<exists>title. import_from_csv ''batch.csv'' (Inr [[''title''], [''Interstellar''], [''Arrival'']])
                 (ArrTab_init ''radarr'')
               = emit [MessageBox BoxWarning title []] (ArrTab_init ''radarr''))
   \<and> terms_to_add_queue
        (import_from_csv ''batch.csv'' (Inr [[''title''], [''Interstellar''], [''Arrival'']])
           (ArrTab_init ''radarr'')) = []
   \<and> lower ''Radarr'' = lower (service_name batch_tab)
   \<and> on_add_request ''Radarr'' ''Tenet'' ''movie'' batch_tab
       = start_search_and_add ''Tenet'' (Some ''movie'')
           (emit [Log LvInfo ''{service} tab handling event bus request for {term}''
                    [JStr (service_name batch_tab), JStr ''Tenet'']] batch_tab)
   \<and> start_search_and_add ''Tenet'' (Some ''movie'') batch_tab
       = process_next_item_in_queue
           (batch_tab\<lparr>items_to_add_queue := [], current_search_type := ''movie'',
                      terms_to_add_queue := [''Tenet''], terms_to_add_total_count := 1\<rparr>)
   \<and> terms_to_add_queue (on_add_request ''Radarr'' ''Tenet'' ''movie'' batch_tab) = [''Tenet'']
   \<and> current_search_type (on_add_request ''Radarr'' ''Tenet'' ''movie'' batch_tab) = ''movie''"
proof -
  note t = enqueue_replaces[where s = "batch_tab\<lparr>search_input := '' Tenet ''\<rparr>"]
  note ok = mp[OF conjunct1[OF mp[OF conjunct1[OF t] enqueue_facts(1)]] enqueue_facts(2)]
  note t2 = enqueue_replaces[where s = "ArrTab_init ''radarr''" and file_path = "''batch.csv''"
      and contents = "Inr [[''title''], [''Interstellar''], [''Arrival'']]"]
  note no = mp[OF conjunct1[OF conjunct2[OF mp[OF conjunct1[OF conjunct2[OF t2]] enqueue_facts(3)]]]
      enqueue_facts(4)]
  note t3 = enqueue_replaces[where s = batch_tab and t = "''Tenet''" and ty = "''movie''"
      and name = "''Radarr''"]
  note typed = mp[OF conjunct2[OF conjunct2[OF conjunct2[OF mp[OF conjunct1[OF t3] enqueue_facts(8)]]]]
      enqueue_facts(9)]
  note req = mp[OF conjunct1[OF conjunct2[OF conjunct2[OF t3]]] enqueue_facts(10)]
  show ?thesis
    apply (intro conjI)
                apply (rule conjunct1[OF enqueue_facts(1)])
               apply (rule conjunct2[OF enqueue_facts(1)])
              apply (rule enqueue_facts(2))
             apply (rule ok)
            apply (rule enqueue_facts(5))
           apply (rule enqueue_facts(6))
          apply (rule no)
         apply (rule enqueue_facts(7))
        apply (rule enqueue_facts(10))
       apply (rule req)
      apply (rule typed)
     apply (rule enqueue_facts(11))
    apply (rule enqueue_facts(12))
    done
qed

lemma set_dedup [simp]: "set (dedup xs) = set xs"
  by (induction xs rule: dedup.induct) auto

lemma distinct_dedup [simp]: "distinct (dedup xs)"
  by (induction xs rule: dedup.induct) auto


lemma lookup_id_of_dict: "is_dict item \<Longrightarrow> \<exists>r. lookup_id_of ev name item = Inr r"
  by (cases item) (simp_all add: is_dict_def lookup_id_of_def)

lemma lookup_loop_spec:
  assumes "list_all is_dict items"
  shows "lookup_loop ev name ep key items acc seen =
    (map (\<lambda>i. Request (lookup_request ep key name i))
       (dedup (filter (\<lambda>i. i \<notin> set seen) (extracted ev name items))),
     Inr (acc @ concat (map (\<lambda>i. first_hit (api_request ev (lookup_request ep key name i)))
       (dedup (filter (\<lambda>i. i \<notin> set seen) (extracted ev name items))))))"
  using assms
proof (induction items arbitrary: acc seen)
  case Nil
  then show ?case by (simp add: extracted_def)
next
  case (Cons item items)
  then have d: "is_dict item" and ds: "list_all is_dict items" by simp_all
  from lookup_id_of_dict[OF d] obtain r where r: "lookup_id_of ev name item = Inr r" by blast
  note IH = Cons.IH[OF ds]
  show ?case
  proof (cases r)
    case None
    with r IH show ?thesis by (simp add: extracted_def)
  next
    case (Some i)
    have ex: "extracted ev name (item # items) = i # extracted ev name items"
      using r Some by (simp add: extracted_def)
    show ?thesis
    proof (cases "i \<in> set seen")
      case True
      with r Some IH show ?thesis by (simp add: ex)
    next
      case False
      have fl: "filter (\<lambda>y. y \<noteq> i) (filter (\<lambda>j. j \<notin> set seen) xs)
          = filter (\<lambda>j. j \<notin> set (i # seen)) xs" for xs
        by (induction xs) auto
      from False r Some show ?thesis
        by (simp add: ex IH fl Let_def del: filter_filter set_simps)
    qed
  qed
qed



lemma identifiers_extracted: "identifiers ev name items = dedup (extracted ev name items)"
  by (simp add: identifiers_def extracted_def)

lemma task_prowlarr_to_arr_lookup_spec:
  assumes "get_arr_base_url ev name = Inr (base_url, api_key)"
    "list_all is_dict (take 10 results)"
  shows "task_prowlarr_to_arr_lookup ev cls name (JList results)
        = (map (\<lambda>i. Request (lookup_request
                  (base_url @ ''/api/'' @ api_version cls @ ''/'' @ item_search_endpoint cls)
                  api_key name i))
             (identifiers ev name (take 10 results)),
           Inr (concat (map (\<lambda>i. first_hit (api_request ev (lookup_request
                  (base_url @ ''/api/'' @ api_version cls @ ''/'' @ item_search_endpoint cls)
                  api_key name i)))
             (identifiers ev name (take 10 results)))))"
  using assms(1)
  by (simp add: task_prowlarr_to_arr_lookup_def slice10_def lookup_loop_spec[OF assms(2)]
      identifiers_extracted)


lemma decimal_samples: "decimal 438631 = ''438631''" "decimal 876 = ''876''"
  by (simp_all add: decimal.simps)

lemma sample_identifiers:
  "identifiers sample_env ''radarr'' (take 10 sample_results)
     = [''tmdb:438631'', ''imdb:tt0087182'', ''tmdb:876'']"
  by (simp add: identifiers_def lookup_id_of_def dict_get_def sample_results_def sample_env_def
      decimal_samples)

lemma cross_reference_facts:
  "get_arr_base_url sample_env ''radarr'' = Inr (''http://host:7878'', ''secret'')
   \<and> list_all is_dict (take 10 sample_results)"
  "identifiers sample_env ''radarr'' (take 10 sample_results)
     = [''tmdb:438631'', ''imdb:tt0087182'', ''tmdb:876'']"
  "snd (task_prowlarr_to_arr_lookup sample_env RadarrTab ''radarr'' (JList sample_results))
     = Inr [JObj dune, JObj dune_1984]"
proof -
  show c: "get_arr_base_url sample_env ''radarr'' = Inr (''http://host:7878'', ''secret'')
   \<and> list_all is_dict (take 10 sample_results)"
    by code_simp
  show "identifiers sample_env ''radarr'' (take 10 sample_results)
     = [''tmdb:438631'', ''imdb:tt0087182'', ''tmdb:876'']"
    by (rule sample_identifiers)
  have "api_request sample_env = sample_api" by (simp add: sample_env_def)
  then show "snd (task_prowlarr_to_arr_lookup sample_env RadarrTab ''radarr'' (JList sample_results))
     = Inr [JObj dune, JObj dune_1984]"
    using task_prowlarr_to_arr_lookup_spec[OF conjunct1[OF c] conjunct2[OF c], of RadarrTab]
    by (simp add: sample_identifiers sample_api_def lookup_request_def first_hit_def)
qed



lemma prowlarr_path_raises:
  "(\<exists>tr. prowlarr_path ev cls name t = (tr, Inl e)) \<longleftrightarrow>
     (snd (task_prowlarr_search ev name t) = Inl e
      \<or> (\<exists>pr. snd (task_prowlarr_search ev name t) = Inr pr \<and> truthy pr
            \<and> snd (task_prowlarr_to_arr_lookup ev cls name pr) = Inl e))"
  by (cases "task_prowlarr_search ev name t"; cases "snd (task_prowlarr_search ev name t)")
    (auto simp: prowlarr_path_def split: prod.splits sum.splits)

lemma prowlarr_path_returns:
  "(\<exists>tr. prowlarr_path ev cls name t = (tr, Inr (Some arr))) \<longleftrightarrow>
     (\<exists>pr. snd (task_prowlarr_search ev name t) = Inr pr \<and> truthy pr
          \<and> snd (task_prowlarr_to_arr_lookup ev cls name pr) = Inr arr \<and> arr \<noteq> [])"
  by (cases "task_prowlarr_search ev name t"; cases "snd (task_prowlarr_search ev name t)")
    (auto simp: prowlarr_path_def split: prod.splits sum.splits)

text \<open>
  C4, the secondary indexer is contained. For Sonarr and Radarr: when the Prowlarr path
  yields candidates, \<open>_task_search_item\<close> returns them and issues no request beyond
  those of that path; when it yields none or raises, one warning is logged and the
  standard lookup follows, whose outcome is the outcome of the task. So an exception
  leaves \<open>_task_search_item\<close> only if the standard lookup raised it. The Prowlarr path
  raises when the Prowlarr search or the cross-reference raises, and yields candidates
  when the search result is truthy and the cross-reference returns a non-empty list.
\<close>

theorem secondary_indexer_containment:
  "(name \<in> set [''sonarr'', ''radarr''] \<longrightarrow>
      (\<forall>tr arr. prowlarr_path ev cls name t = (tr, Inr (Some arr)) \<longrightarrow>
         task_search_item ev cls name t ty = (tr, Inr (JList arr)) \<and> arr \<noteq> [])
      \<and> (\<forall>tr. prowlarr_path ev cls name t = (tr, Inr None) \<longrightarrow>
         task_search_item ev cls name t ty
           = (tr @ [TaskLog LvWarning
                     ''Prowlarr returned no usable results, falling back to direct search'']
                 @ fst (standard_lookup ev cls name t),
              snd (standard_lookup ev cls name t)))
      \<and> (\<forall>tr e. prowlarr_path ev cls name t = (tr, Inl e) \<longrightarrow>
         task_search_item ev cls name t ty
           = (tr @ [TaskLog LvWarning
                     (''Prowlarr search failed, falling back to direct search: '' @ exc_str e)]
                 @ fst (standard_lookup ev cls name t),
              snd (standard_lookup ev cls name t)))
      \<and> (\<forall>e. snd (task_search_item ev cls name t ty) = Inl e \<longrightarrow>
         snd (standard_lookup ev cls name t) = Inl e))
   \<and> ((\<exists>tr. prowlarr_path ev cls name t = (tr, Inl e)) \<longleftrightarrow>
        (snd (task_prowlarr_search ev name t) = Inl e
         \<or> (\<exists>pr. snd (task_prowlarr_search ev name t) = Inr pr \<and> truthy pr
               \<and> snd (task_prowlarr_to_arr_lookup ev cls name pr) = Inl e)))
   \<and> ((\<exists>tr. prowlarr_path ev cls name t = (tr, Inr (Some arr))) \<longleftrightarrow>
        (\<exists>pr. snd (task_prowlarr_search ev name t) = Inr pr \<and> truthy pr
             \<and> snd (task_prowlarr_to_arr_lookup ev cls name pr) = Inr arr \<and> arr \<noteq> []))"
proof -
  have A: "task_search_item ev cls name t ty = (tr, Inr (JList arr)) \<and> arr \<noteq> []"
    if "name \<in> set [''sonarr'', ''radarr'']" "prowlarr_path ev cls name t = (tr, Inr (Some arr))"
    for tr arr
  proof -
    from that(2) have "arr \<noteq> []"
      by (auto simp: prowlarr_path_def split: prod.splits sum.splits if_splits)
    with that show ?thesis by (simp add: task_search_item_def)
  qed
  have B: "task_search_item ev cls name t ty
           = (tr @ [TaskLog LvWarning
                     ''Prowlarr returned no usable results, falling back to direct search'']
                 @ fst (standard_lookup ev cls name t),
              snd (standard_lookup ev cls name t))"
    if "name \<in> set [''sonarr'', ''radarr'']" "prowlarr_path ev cls name t = (tr, Inr None)" for tr
    using that by (simp add: task_search_item_def split: prod.splits)
  have C: "task_search_item ev cls name t ty
           = (tr @ [TaskLog LvWarning
                     (''Prowlarr search failed, falling back to direct search: '' @ exc_str e)]
                 @ fst (standard_lookup ev cls name t),
              snd (standard_lookup ev cls name t))"
    if "name \<in> set [''sonarr'', ''radarr'']" "prowlarr_path ev cls name t = (tr, Inl e)" for tr e
    using that by (simp add: task_search_item_def split: prod.splits)
  have D: "snd (standard_lookup ev cls name t) = Inl e"
    if "name \<in> set [''sonarr'', ''radarr'']" "snd (task_search_item ev cls name t ty) = Inl e" for e
  proof (cases "prowlarr_path ev cls name t")
    case (Pair tr r)
    show ?thesis
    proof (cases r)
      case (Inl e')
      with Pair that C[of tr e'] show ?thesis by simp
    next
      case (Inr o1)
      show ?thesis
      proof (cases o1)
        case None
        with Inr Pair that B[of tr] show ?thesis by simp
      next
        case (Some arr)
        with Inr Pair that A[of tr arr] show ?thesis by simp
      qed
    qed
  qed
  show ?thesis
    apply (intro conjI impI allI)
          apply (rule conjunct1[OF A], assumption, assumption)
         apply (rule conjunct2[OF A], assumption, assumption)
        apply (rule B, assumption, assumption)
       apply (rule C, assumption, assumption)
      apply (rule D, assumption, assumption)
     apply (rule prowlarr_path_raises)
    apply (rule prowlarr_path_returns)
    done
qed


lemma sample_prowlarr_search:
  "snd (task_prowlarr_search sample_env ''radarr'' ''Dune'') = Inr (JList sample_results)"
  "truthy (JList sample_results)"
  by code_simp+

lemma sample_path:
  "prowlarr_path sample_env RadarrTab ''radarr'' ''Dune''
     = (fst (prowlarr_path sample_env RadarrTab ''radarr'' ''Dune''),
        Inr (Some [JObj dune, JObj dune_1984]))"
proof -
  have "\<exists>tr. prowlarr_path sample_env RadarrTab ''radarr'' ''Dune''
      = (tr, Inr (Some [JObj dune, JObj dune_1984]))"
    unfolding prowlarr_path_returns
    using sample_prowlarr_search cross_reference_facts(3) by blast
  then show ?thesis by auto
qed

lemma unconfigured_facts:
  "''radarr'' \<in> set [''sonarr'', ''radarr'']"
  "prowlarr_path unconfigured_env RadarrTab ''radarr'' ''Dune''
     = ([], Inl (PyExc ValueError ''Prowlarr not enabled or configured.''))"
  "snd (standard_lookup unconfigured_env RadarrTab ''radarr'' ''Dune'') = Inr (JList [])"
  "map req_url (requests (fst (standard_lookup unconfigured_env RadarrTab ''radarr'' ''Dune'')))
     = [''http://host:7878/api/v3/movie/lookup'']"
  by code_simp+

theorem secondary_indexer_containment_witness:
  "''radarr'' \<in> set [''sonarr'', ''radarr'']
   \<and> prowlarr_path sample_env RadarrTab ''radarr'' ''Dune''
       = (fst (prowlarr_path sample_env RadarrTab ''radarr'' ''Dune''),
          Inr (Some [JObj dune, JObj dune_1984]))
   \<and> task_search_item sample_env RadarrTab ''radarr'' ''Dune'' ''item''
       = (fst (prowlarr_path sample_env RadarrTab ''radarr'' ''Dune''),
          Inr (JList [JObj dune, JObj dune_1984]))
   \<and> prowlarr_path unconfigured_env RadarrTab ''radarr'' ''Dune''
       = ([], Inl (PyExc ValueError ''Prowlarr not enabled or configured.''))
   \<and> task_search_item unconfigured_env RadarrTab ''radarr'' ''Dune'' ''item''
       = ([] @ [TaskLog LvWarning
                 (''Prowlarr search failed, falling back to direct search: ''
                    @ exc_str (PyExc ValueError ''Prowlarr not enabled or configured.''))]
             @ fst (standard_lookup unconfigured_env RadarrTab ''radarr'' ''Dune''),
          snd (standard_lookup unconfigured_env RadarrTab ''radarr'' ''Dune''))
   \<and> snd (standard_lookup unconfigured_env RadarrTab ''radarr'' ''Dune'') = Inr (JList [])
   \<and> map req_url (requests (fst (standard_lookup unconfigured_env RadarrTab ''radarr'' ''Dune'')))
       = [''http://host:7878/api/v3/movie/lookup'']"
proof -
  note t = mp[OF conjunct1[OF secondary_indexer_containment[where ev = sample_env
        and cls = RadarrTab and name = "''radarr''" and t = "''Dune''" and ty = "''item''"]]
      unconfigured_facts(1)]
  note a = conjunct1[OF mp[OF spec[OF spec[OF conjunct1[OF t]]] sample_path]]
  note u = mp[OF conjunct1[OF secondary_indexer_containment[where ev = unconfigured_env
        and cls = RadarrTab and name = "''radarr''" and t = "''Dune''" and ty = "''item''"]]
      unconfigured_facts(1)]
  note b = mp[OF spec[OF spec[OF conjunct1[OF conjunct2[OF conjunct2[OF u]]]]]
      unconfigured_facts(2)]
  show ?thesis
    apply (intro conjI)
          apply (rule unconfigured_facts(1))
         apply (rule sample_path)
        apply (rule a)
       apply (rule unconfigured_facts(2))
      apply (rule b)
     apply (rule unconfigured_facts(3))
    apply (rule unconfigured_facts(4))
    done
qed

end
